theory Spec2Isabelle
  imports Complex_Main
begin

section \<open>JavaScript values\<close>

text \<open>
  The dashboard (\<^verbatim>\<open>static/js/FinancialDashboard.js\<close>) works on whatever
  \<^verbatim>\<open>response.json()\<close> yields, so the model keeps the untyped values of the language:
  \<open>undefined\<close>, \<open>null\<close>, booleans, numbers, strings, arrays and plain objects (a list of
  own properties, each key once, as \<^verbatim>\<open>JSON.parse\<close> builds them).

  A number is an IEEE 754 double: \<open>NaN\<close>, one of the two infinities, the negative
  zero, or a finite value \<open>Fin q\<close>, with \<open>Fin 0\<close> the positive zero. The finite values
  of the language are the rationals \<open>m * 2^e\<close> that a double can hold; arithmetic rounds
  every result to the nearest of them, as the subsection on arithmetic below defines it.

  A string is the list of the bytes of its UTF-8 encoding. A byte below 128 is an ASCII
  character, which is also one UTF-16 code unit of the string as the language counts it.
\<close>

datatype jsnum = NaN | PInf | NInf | NegZero | Fin rat

datatype jsval =
    Undefined
  | Null
  | Bool bool
  | Num jsnum
  | Str string
  | Arr "jsval list"
  | Obj "(string \<times> jsval) list"

text \<open>
  What the code can throw: \<open>Error msg\<close> is \<^verbatim>\<open>new Error(msg)\<close>; \<open>TypeError w\<close> is the
  language's own \<^verbatim>\<open>TypeError\<close>, raised at the operation \<open>w\<close> (a property read on
  \<open>null\<close> or \<open>undefined\<close>, a call of something that is not a function, a conversion of an
  object that has no usable \<^verbatim>\<open>toString\<close>); \<open>HostError msg\<close> is a rejection of
  \<^verbatim>\<open>fetch\<close> or of \<^verbatim>\<open>response.json()\<close>, with the message the host gave it.
\<close>

datatype exn = Error string | TypeError string | HostError string

text \<open>
  The built-ins whose results the language leaves to the host are parameters:
  the two \<^verbatim>\<open>Intl.NumberFormat\<close> formatters of the source, \<^verbatim>\<open>new Date(v).toLocaleDateString()\<close>,
  \<^verbatim>\<open>v.toLocaleString()\<close>, the text of a finite number, the number a string reads as, the
  message of a \<^verbatim>\<open>TypeError\<close>, and whether \<^verbatim>\<open>window.Recharts\<close> is there. So are the
  two operations on strings that follow the Unicode tables or count UTF-16 code units, for
  a string that is not ASCII: its upper-casing (\<open>upperCase\<close>) and its code unit at an
  index (\<open>unitAt\<close>, \<open>None\<close> past the end). On ASCII strings both are defined below.
\<close>

record host =
  priceFormat :: "jsval \<Rightarrow> string"
  compactFormat :: "jsval \<Rightarrow> string"
  dateString :: "jsval \<Rightarrow> string"
  localeString :: "jsval \<Rightarrow> string"
  finiteToString :: "rat \<Rightarrow> string"
  stringToNumber :: "string \<Rightarrow> jsnum"
  typeErrorMessage :: "string \<Rightarrow> string"
  upperCase :: "string \<Rightarrow> string"
  unitAt :: "string \<Rightarrow> nat \<Rightarrow> string option"
  recharts :: bool

definition andThen :: "exn + 'a \<Rightarrow> ('a \<Rightarrow> exn + 'b) \<Rightarrow> exn + 'b" where
  "andThen m f = (case m of Inl e \<Rightarrow> Inl e | Inr x \<Rightarrow> f x)"

fun mapM :: "('a \<Rightarrow> exn + 'b) \<Rightarrow> 'a list \<Rightarrow> exn + 'b list" where
  "mapM f [] = Inr []"
| "mapM f (x # xs) = andThen (f x) (\<lambda>y. andThen (mapM f xs) (\<lambda>ys. Inr (y # ys)))"

fun message :: "host \<Rightarrow> exn \<Rightarrow> string" where
  "message h (Error m) = m"
| "message h (TypeError w) = typeErrorMessage h w"
| "message h (HostError m) = m"

subsection \<open>Truthiness and property reads\<close>

fun truthy :: "jsval \<Rightarrow> bool" where
  "truthy Undefined = False"
| "truthy Null = False"
| "truthy (Bool b) = b"
| "truthy (Num NaN) = False"
| "truthy (Num NegZero) = False"
| "truthy (Num (Fin q)) = (q \<noteq> 0)"
| "truthy (Num PInf) = True"
| "truthy (Num NInf) = True"
| "truthy (Str s) = (s \<noteq> [])"
| "truthy (Arr xs) = True"
| "truthy (Obj kvs) = True"

definition nullish :: "jsval \<Rightarrow> bool" where
  "nullish v = (v = Undefined \<or> v = Null)"

fun decimal :: "nat \<Rightarrow> string" where
  "decimal n =
     (if n < 10 then [''0123456789'' ! n]
      else decimal (n div 10) @ [''0123456789'' ! (n mod 10)])"

text \<open>
  \<open>getProp v k\<close> is \<^verbatim>\<open>v.k\<close> for the property names the source reads, none of which
  is a built-in property of a string, an array, a number or a boolean.
\<close>

fun getProp :: "jsval \<Rightarrow> string \<Rightarrow> exn + jsval" where
  "getProp Undefined k = Inl (TypeError k)"
| "getProp Null k = Inl (TypeError k)"
| "getProp (Obj kvs) k = Inr (case map_of kvs k of Some v \<Rightarrow> v | None \<Rightarrow> Undefined)"
| "getProp v k = Inr Undefined"

definition ascii :: "string \<Rightarrow> bool" where
  "ascii s = list_all (\<lambda>c. (of_char c :: nat) < 128) s"

text \<open>
  \<open>getIndex h v i\<close> is \<^verbatim>\<open>v[i]\<close> for a literal index: out of range it is \<open>undefined\<close>.
  On a string it is the string of the code unit at \<open>i\<close>.
\<close>

fun getIndex :: "host \<Rightarrow> jsval \<Rightarrow> nat \<Rightarrow> exn + jsval" where
  "getIndex h Undefined i = Inl (TypeError (decimal i))"
| "getIndex h Null i = Inl (TypeError (decimal i))"
| "getIndex h (Arr xs) i = Inr (if i < length xs then xs ! i else Undefined)"
| "getIndex h (Str s) i =
     Inr (if ascii s then (if i < length s then Str [s ! i] else Undefined)
          else (case unitAt h s i of Some u \<Rightarrow> Str u | None \<Rightarrow> Undefined))"
| "getIndex h (Obj kvs) i = getProp (Obj kvs) (decimal i)"
| "getIndex h v i = Inr Undefined"

subsection \<open>Conversions\<close>

text \<open>
  Converting an object to a primitive calls its \<^verbatim>\<open>toString\<close>. A parsed object whose own
  key \<^verbatim>\<open>toString\<close> hides the inherited method has nothing to call, and the conversion
  throws; an array converts its elements in turn.
\<close>

fun unconvertible :: "jsval \<Rightarrow> bool" where
  "unconvertible (Obj kvs) = (''toString'' \<in> set (map fst kvs))"
| "unconvertible (Arr xs) = list_ex unconvertible xs"
| "unconvertible v = False"

fun numToString :: "host \<Rightarrow> jsnum \<Rightarrow> string" where
  "numToString h NaN = ''NaN''"
| "numToString h PInf = ''Infinity''"
| "numToString h NInf = ''-Infinity''"
| "numToString h NegZero = ''0''"
| "numToString h (Fin q) = finiteToString h q"

fun joinComma :: "string list \<Rightarrow> string" where
  "joinComma [] = []"
| "joinComma [s] = s"
| "joinComma (s # t # ss) = s @ '','' @ joinComma (t # ss)"

fun toStr :: "host \<Rightarrow> jsval \<Rightarrow> string" where
  "toStr h Undefined = ''undefined''"
| "toStr h Null = ''null''"
| "toStr h (Bool b) = (if b then ''true'' else ''false'')"
| "toStr h (Num n) = numToString h n"
| "toStr h (Str s) = s"
| "toStr h (Arr xs) =
     joinComma (map (\<lambda>x. if x = Undefined \<or> x = Null then [] else toStr h x) xs)"
| "toStr h (Obj kvs) = ''[object Object]''"

definition toString_js :: "host \<Rightarrow> jsval \<Rightarrow> exn + string" where
  "toString_js h v =
     (if unconvertible v then Inl (TypeError ''toString'') else Inr (toStr h v))"

definition toNumber :: "host \<Rightarrow> jsval \<Rightarrow> exn + jsnum" where
  "toNumber h v =
     (if unconvertible v then Inl (TypeError ''toString'')
      else Inr (case v of
          Undefined \<Rightarrow> NaN
        | Null \<Rightarrow> Fin 0
        | Bool b \<Rightarrow> Fin (if b then 1 else 0)
        | Num n \<Rightarrow> n
        | Str s \<Rightarrow> stringToNumber h s
        | Arr xs \<Rightarrow> stringToNumber h (toStr h (Arr xs))
        | Obj kvs \<Rightarrow> NaN))"

subsection \<open>Arithmetic on numbers\<close>

text \<open>
  The operators \<^verbatim>\<open>-\<close>, \<^verbatim>\<open>/\<close> and \<^verbatim>\<open>*\<close> of the language are those of
  IEEE 754 binary64 with rounding to nearest, ties to even: the exact result, rounded to
  the nearest double.

  A positive rational \<open>a\<close> lies in one binade, \<open>2^e \<le> a < 2^(e+1)\<close>. The doubles of that
  binade are the multiples of \<open>2^(e-52)\<close>; below \<open>2^(-1022)\<close> (the subnormal range) they
  are the multiples of \<open>2^(-1074)\<close>. A result that rounds to \<open>2^1024\<close> or more is an
  infinity, one that rounds to nothing a zero, each with the sign of the exact result.
\<close>

function ilog2 :: "int \<Rightarrow> int" where
  "ilog2 n = (if n < 2 then 0 else 1 + ilog2 (n div 2))"
  by pat_completeness auto
termination
  by (relation "measure nat") auto

definition exponentOf :: "rat \<Rightarrow> int" where
  "exponentOf a =
     (let (p, q) = quotient_of a;
          e = ilog2 p - ilog2 q
      in if power_int 2 e \<le> a then e else e - 1)"

definition roundHalfEven :: "rat \<Rightarrow> int" where
  "roundHalfEven y =
     (let f = \<lfloor>y\<rfloor>; d = y - of_int f
      in if d < 1 / 2 then f else if 1 / 2 < d then f + 1 else if even f then f else f + 1)"

definition signedZero :: "bool \<Rightarrow> jsnum" where
  "signedZero neg = (if neg then NegZero else Fin 0)"

definition signedInf :: "bool \<Rightarrow> jsnum" where
  "signedInf neg = (if neg then NInf else PInf)"

text \<open>\<open>nearest e a\<close> is the multiple of the spacing of binade \<open>e\<close> nearest to \<open>a\<close>.\<close>

definition nearest :: "int \<Rightarrow> rat \<Rightarrow> rat" where
  "nearest e a =
     (let ulp = power_int 2 (max e (- 1022) - 52)
      in of_int (roundHalfEven (a / ulp)) * ulp)"

text \<open>\<open>roundDouble neg a\<close> is the double nearest to the magnitude \<open>a\<close>, with the sign \<open>neg\<close>.\<close>

definition roundDouble :: "bool \<Rightarrow> rat \<Rightarrow> jsnum" where
  "roundDouble neg a =
     (if a = 0 then signedZero neg
      else let r = nearest (exponentOf a) a
           in if 2 ^ 1024 \<le> r then signedInf neg
              else if r = 0 then signedZero neg
              else Fin (if neg then - r else r))"

text \<open>
  The number a decimal literal of a JSON text denotes: \<^verbatim>\<open>0.1\<close> is
  \<open>numberLiteral (1 / 10)\<close>, the double nearest to one tenth.
\<close>

definition numberLiteral :: "rat \<Rightarrow> jsnum" where
  "numberLiteral q = roundDouble (q < 0) \<bar>q\<bar>"

fun isZero :: "jsnum \<Rightarrow> bool" where
  "isZero NegZero = True"
| "isZero (Fin q) = (q = 0)"
| "isZero x = False"

fun isInf :: "jsnum \<Rightarrow> bool" where
  "isInf PInf = True"
| "isInf NInf = True"
| "isInf x = False"

fun signBit :: "jsnum \<Rightarrow> bool" where
  "signBit NInf = True"
| "signBit NegZero = True"
| "signBit (Fin q) = (q < 0)"
| "signBit x = False"

text \<open>The exact value of a finite number, and its magnitude.\<close>

fun exactValue :: "jsnum \<Rightarrow> rat" where
  "exactValue (Fin q) = q"
| "exactValue x = 0"

definition absValue :: "jsnum \<Rightarrow> rat" where
  "absValue x = \<bar>exactValue x\<bar>"

fun num_neg :: "jsnum \<Rightarrow> jsnum" where
  "num_neg NaN = NaN"
| "num_neg PInf = NInf"
| "num_neg NInf = PInf"
| "num_neg NegZero = Fin 0"
| "num_neg (Fin a) = (if a = 0 then NegZero else Fin (- a))"

text \<open>
  Addition: opposite infinities give \<open>NaN\<close>; an exact sum of zero is the positive zero
  unless both operands are negative zeros.
\<close>

definition num_add :: "jsnum \<Rightarrow> jsnum \<Rightarrow> jsnum" where
  "num_add x y =
     (if x = NaN \<or> y = NaN then NaN
      else if isInf x \<and> isInf y then (if x = y then x else NaN)
      else if isInf x then x
      else if isInf y then y
      else let s = exactValue x + exactValue y
           in if s = 0 then signedZero (signBit x \<and> signBit y)
              else roundDouble (s < 0) \<bar>s\<bar>)"

text \<open>\<^verbatim>\<open>x - y\<close> is \<open>x + (- y)\<close>.\<close>

definition num_sub :: "jsnum \<Rightarrow> jsnum \<Rightarrow> jsnum" where
  "num_sub x y = num_add x (num_neg y)"

text \<open>
  Division: \<open>NaN\<close> for two infinities or two zeros; otherwise the sign is the product of
  the signs, an infinite dividend or a zero divisor gives an infinity, an infinite divisor
  a zero.
\<close>

definition num_div :: "jsnum \<Rightarrow> jsnum \<Rightarrow> jsnum" where
  "num_div x y =
     (if x = NaN \<or> y = NaN then NaN
      else if (isInf x \<and> isInf y) \<or> (isZero x \<and> isZero y) then NaN
      else if isInf x then signedInf (signBit x \<noteq> signBit y)
      else if isInf y then signedZero (signBit x \<noteq> signBit y)
      else if isZero y then signedInf (signBit x \<noteq> signBit y)
      else roundDouble (signBit x \<noteq> signBit y) (absValue x / absValue y))"

text \<open>Multiplication: \<open>NaN\<close> for an infinity times a zero.\<close>

definition num_mul :: "jsnum \<Rightarrow> jsnum \<Rightarrow> jsnum" where
  "num_mul x y =
     (if x = NaN \<or> y = NaN then NaN
      else if (isInf x \<and> isZero y) \<or> (isZero x \<and> isInf y) then NaN
      else if isInf x \<or> isInf y then signedInf (signBit x \<noteq> signBit y)
      else roundDouble (signBit x \<noteq> signBit y) (absValue x * absValue y))"

fun num_abs :: "jsnum \<Rightarrow> jsnum" where
  "num_abs NaN = NaN"
| "num_abs PInf = PInf"
| "num_abs NInf = PInf"
| "num_abs NegZero = Fin 0"
| "num_abs (Fin a) = Fin \<bar>a\<bar>"

text \<open>\<open>num_ge0 x\<close> is \<^verbatim>\<open>x >= 0\<close>, and \<open>isNaN\<close> the global of that name on a number.\<close>

fun num_ge0 :: "jsnum \<Rightarrow> bool" where
  "num_ge0 NaN = False"
| "num_ge0 PInf = True"
| "num_ge0 NInf = False"
| "num_ge0 NegZero = True"
| "num_ge0 (Fin a) = (0 \<le> a)"

definition isNaN :: "jsnum \<Rightarrow> bool" where
  "isNaN x = (x = NaN)"

subsection \<open>\<^verbatim>\<open>Number.prototype.toFixed\<close>\<close>

text \<open>
  For a finite \<open>x\<close> below \<open>10^21\<close> in magnitude the digits are those of the integer \<open>n\<close>
  nearest to \<open>x * 10^f\<close>, the larger one at a tie, with the point \<open>f\<close> places from the
  right; at \<open>10^21\<close> and above the text is the host's text of the number. A value that is
  not finite prints as its name, and the negative zero as zero.
\<close>

definition fixedDigits :: "nat \<Rightarrow> rat \<Rightarrow> string" where
  "fixedDigits f x =
     (let m = decimal (nat \<lfloor>x * 10 ^ f + 1 / 2\<rfloor>);
          m = (if length m \<le> f then replicate (f + 1 - length m) (CHR ''0'') @ m else m);
          k = length m
      in if f = 0 then m else take (k - f) m @ ''.'' @ drop (k - f) m)"

fun toFixed :: "host \<Rightarrow> nat \<Rightarrow> jsnum \<Rightarrow> string" where
  "toFixed h f NaN = ''NaN''"
| "toFixed h f PInf = ''Infinity''"
| "toFixed h f NInf = ''-Infinity''"
| "toFixed h f NegZero = fixedDigits f 0"
| "toFixed h f (Fin x) =
     (if x < 0 then ''-'' else []) @
     (if 10 ^ 21 \<le> \<bar>x\<bar> then finiteToString h \<bar>x\<bar> else fixedDigits f \<bar>x\<bar>)"

text \<open>
  \<^verbatim>\<open>v.toFixed(f)\<close>: only a number has the method; on anything else the call is a call
  of \<open>undefined\<close> (or of a parsed, hence not callable, own property).
\<close>

fun callToFixed :: "host \<Rightarrow> jsval \<Rightarrow> nat \<Rightarrow> exn + string" where
  "callToFixed h (Num n) f = Inr (toFixed h f n)"
| "callToFixed h v f = Inl (TypeError ''toFixed'')"

section \<open>Formatters\<close>

text \<open>
  \<^verbatim>\<open>formatPrice\<close>, \<^verbatim>\<open>formatCurrency\<close> and \<^verbatim>\<open>formatPercent\<close> (lines 3 to 27): each
  answers \<^verbatim>\<open>'N/A'\<close> when \<^verbatim>\<open>value === null || value === undefined\<close> and hands every
  other value on, to \<^verbatim>\<open>Intl.NumberFormat(...).format\<close> (which converts its argument to a
  number first) or to \<^verbatim>\<open>value.toFixed(2)\<close>.
\<close>

definition formatPrice :: "host \<Rightarrow> jsval \<Rightarrow> exn + string" where
  "formatPrice h v =
     (if v = Null \<or> v = Undefined then Inr ''N/A''
      else if unconvertible v then Inl (TypeError ''toString'')
      else Inr (priceFormat h v))"

definition formatCurrency :: "host \<Rightarrow> jsval \<Rightarrow> exn + string" where
  "formatCurrency h v =
     (if v = Null \<or> v = Undefined then Inr ''N/A''
      else if unconvertible v then Inl (TypeError ''toString'')
      else Inr (compactFormat h v))"

definition formatPercent :: "host \<Rightarrow> jsval \<Rightarrow> exn + string" where
  "formatPercent h v =
     (if v = Null \<or> v = Undefined then Inr ''N/A''
      else andThen (callToFixed h v 2) (\<lambda>s. Inr (s @ ''%'')))"

section \<open>The view state and the two request handlers\<close>

text \<open>
  The seven \<^verbatim>\<open>useState\<close> cells of \<^verbatim>\<open>FinancialDashboard\<close> (lines 30 to 36). The
  dataset, the selected analysis and the analysis text hold whatever was stored in them:
  \<open>null\<close>, a parsed body, a property of one.
\<close>

record view_state =
  ticker :: string
  loading :: bool
  error :: string
  data :: jsval
  analysisType :: jsval
  analysisContent :: jsval
  loadingAnalysis :: bool

definition initialState :: view_state where
  "initialState =
     \<lparr>ticker = [], loading = False, error = [], data = Null, analysisType = Null,
      analysisContent = Str [], loadingAnalysis = False\<rparr>"

text \<open>
  A call of \<^verbatim>\<open>fetch\<close>: the verb, the address, the headers and the body. The body of the
  analysis request is \<^verbatim>\<open>JSON.stringify(data)\<close>, kept here as the value it serialises.
\<close>

datatype verb = GET | POST

record request =
  req_verb :: verb
  req_url :: string
  req_headers :: "(string \<times> string) list"
  req_body :: "jsval option"

text \<open>
  What comes back: \<^verbatim>\<open>fetch\<close> rejects (\<open>NetworkError\<close>, with its message), or resolves
  with a response, its \<^verbatim>\<open>ok\<close> flag (a 2xx status) and a payload that
  \<^verbatim>\<open>response.json()\<close> either parses or rejects (\<open>Malformed\<close>, with the message of the
  parse error).
\<close>

datatype payload = Json jsval | Malformed string

datatype outcome = NetworkError string | Response bool payload

text \<open>
  \<^verbatim>\<open>s.toUpperCase()\<close>. On an ASCII string it raises the letters \<open>a\<close> to \<open>z\<close> (codes 97
  to 122) by 32 and leaves every other character; on any other string it is the host's
  mapping by the Unicode tables, which can change the length.
\<close>

definition toUpperChar :: "char \<Rightarrow> char" where
  "toUpperChar c =
     (let n = (of_char c :: nat) in if 97 \<le> n \<and> n \<le> 122 then char_of (n - 32) else c)"

definition toUpperCase :: "host \<Rightarrow> string \<Rightarrow> string" where
  "toUpperCase h s = (if ascii s then map toUpperChar s else upperCase h s)"

text \<open>\<^verbatim>\<open>response.json()\<close>, awaited.\<close>

fun parseJson :: "payload \<Rightarrow> exn + jsval" where
  "parseJson (Json v) = Inr v"
| "parseJson (Malformed m) = Inl (HostError m)"

text \<open>
  The failure branch shared by both handlers (lines 49 to 52 and 79 to 82):
  \<^verbatim>\<open>throw new Error(errorData.error || fallback)\<close>. It always throws; which error depends
  on the body.
\<close>

definition throwErrorOf :: "host \<Rightarrow> payload \<Rightarrow> string \<Rightarrow> exn" where
  "throwErrorOf h b fallback =
     (case parseJson b of
        Inl e \<Rightarrow> e
      | Inr errorData \<Rightarrow>
          (case getProp errorData ''error'' of
             Inl e \<Rightarrow> e
           | Inr e \<Rightarrow>
               if truthy e
               then (case toString_js h e of Inl t \<Rightarrow> t | Inr m \<Rightarrow> Error m)
               else Error fallback))"

subsection \<open>\<^verbatim>\<open>handleSearch\<close> (lines 38 to 62)\<close>

text \<open>The four updates before the request (lines 42 to 45), and the request of line 48.\<close>

definition searchBegin :: "view_state \<Rightarrow> view_state" where
  "searchBegin st = st\<lparr>loading := True, error := [], data := Null, analysisContent := Str []\<rparr>"

definition searchRequest :: "host \<Rightarrow> view_state \<Rightarrow> request" where
  "searchRequest h st =
     \<lparr>req_verb = GET, req_url = ''/api/stock/'' @ toUpperCase h (ticker st),
      req_headers = [], req_body = None\<rparr>"

text \<open>The \<^verbatim>\<open>try\<close> block: the value handed to \<^verbatim>\<open>setData\<close>, or what was thrown.\<close>

fun searchTry :: "host \<Rightarrow> outcome \<Rightarrow> exn + jsval" where
  "searchTry h (NetworkError m) = Inl (HostError m)"
| "searchTry h (Response ok b) =
     (if \<not> ok then Inl (throwErrorOf h b ''Failed to fetch data'') else parseJson b)"

text \<open>
  The handler from the response on: the \<^verbatim>\<open>try\<close>, the \<^verbatim>\<open>catch\<close> that stores the
  message, and the \<^verbatim>\<open>finally\<close> that clears the flag. The updates apply to the state
  as it is when the response arrives.
\<close>

definition searchSettle :: "host \<Rightarrow> outcome \<Rightarrow> view_state \<Rightarrow> view_state" where
  "searchSettle h out st =
     (case searchTry h out of
        Inr result \<Rightarrow> st\<lparr>data := result\<rparr>
      | Inl err \<Rightarrow> st\<lparr>error := message h err\<rparr>)\<lparr>loading := False\<rparr>"

text \<open>
  The handler up to the \<^verbatim>\<open>await\<close> of line 48: nothing at all when the ticker text is
  empty (line 40), otherwise the updated state and the request now in flight.
\<close>

definition searchStart :: "host \<Rightarrow> view_state \<Rightarrow> view_state \<times> request option" where
  "searchStart h st =
     (if ticker st = [] then (st, None) else (searchBegin st, Some (searchRequest h st)))"

text \<open>
  One run of the handler, not interleaved with another: the final state and the requests
  issued, the network given as the function that answers a request.
\<close>

definition handleSearch ::
    "host \<Rightarrow> (request \<Rightarrow> outcome) \<Rightarrow> view_state \<Rightarrow> view_state \<times> request list" where
  "handleSearch h net st =
     (case searchStart h st of
        (st', None) \<Rightarrow> (st', [])
      | (st', Some rq) \<Rightarrow> (searchSettle h (net rq) st', [rq]))"

subsection \<open>\<^verbatim>\<open>handleAnalysisClick\<close> (lines 64 to 95)\<close>

definition analysisField :: "string \<Rightarrow> string" where
  "analysisField ty =
     (if ty = ''analyze'' then ''analysis''
      else if ty = ''predict'' then ''prediction''
      else ''risk_assessment'')"

definition analysisBegin :: "string \<Rightarrow> view_state \<Rightarrow> view_state" where
  "analysisBegin ty st =
     st\<lparr>loadingAnalysis := True, analysisType := Str ty, analysisContent := Str []\<rparr>"

definition analysisRequest :: "string \<Rightarrow> view_state \<Rightarrow> request" where
  "analysisRequest ty st =
     \<lparr>req_verb = POST, req_url = ''/api/'' @ ty,
      req_headers = [(''Content-Type'', ''application/json'')],
      req_body = Some (data st)\<rparr>"

fun analysisTry :: "host \<Rightarrow> string \<Rightarrow> outcome \<Rightarrow> exn + jsval" where
  "analysisTry h ty (NetworkError m) = Inl (HostError m)"
| "analysisTry h ty (Response ok b) =
     (if \<not> ok then Inl (throwErrorOf h b ''Failed to generate analysis'')
      else andThen (parseJson b) (\<lambda>result. getProp result (analysisField ty)))"

definition analysisSettle :: "host \<Rightarrow> string \<Rightarrow> outcome \<Rightarrow> view_state \<Rightarrow> view_state" where
  "analysisSettle h ty out st =
     (case analysisTry h ty out of
        Inr content \<Rightarrow> st\<lparr>analysisContent := content\<rparr>
      | Inl err \<Rightarrow> st\<lparr>error := message h err\<rparr>)\<lparr>loadingAnalysis := False\<rparr>"

text \<open>The handler up to the \<^verbatim>\<open>await\<close> of line 73; line 65 returns when there is no dataset.\<close>

definition analysisStart :: "string \<Rightarrow> view_state \<Rightarrow> view_state \<times> request option" where
  "analysisStart ty st =
     (if \<not> truthy (data st) then (st, None)
      else (analysisBegin ty st, Some (analysisRequest ty st)))"

definition handleAnalysisClick ::
    "host \<Rightarrow> (request \<Rightarrow> outcome) \<Rightarrow> string \<Rightarrow> view_state \<Rightarrow> view_state \<times> request list" where
  "handleAnalysisClick h net ty st =
     (case analysisStart ty st of
        (st', None) \<Rightarrow> (st', [])
      | (st', Some rq) \<Rightarrow> (analysisSettle h ty (net rq) st', [rq]))"

section \<open>Rendering\<close>

text \<open>
  What the component function returns, or what it throws while building it. A block
  written \<^verbatim>\<open>{c && (...)}\<close> is \<open>Shown\<close> when \<open>c\<close> is truthy and otherwise \<open>Skipped\<close>
  with the falsy value the expression has. Values placed in the markup as they are
  (\<^verbatim>\<open>{data.company_info.name}\<close>) stay values: what React does with the tree is not
  part of the model.
\<close>

datatype 'a slot = Skipped jsval | Shown 'a

datatype indicator = Up | Down

record change_line =
  tone :: string
  arrow :: indicator
  magnitude :: string

record metric_card =
  card_title :: string
  card_amount :: string
  card_date :: "string slot"
  card_change :: "change_line slot"

subsection \<open>\<^verbatim>\<open>renderMetricCard\<close> (lines 97 to 118)\<close>

text \<open>
  Line 98: \<^verbatim>\<open>previousValue ? ((value - previousValue) / previousValue) * 100 : null\<close>,
  with \<open>None\<close> for \<open>null\<close>.
\<close>

definition percentChange :: "host \<Rightarrow> jsval \<Rightarrow> jsval \<Rightarrow> exn + jsnum option" where
  "percentChange h v p =
     (if truthy p
      then andThen (toNumber h v) (\<lambda>a. andThen (toNumber h p) (\<lambda>b.
             Inr (Some (num_mul (num_div (num_sub a b) b) (Fin 100)))))
      else Inr None)"

text \<open>
  Lines 111 to 115: the line is there when \<^verbatim>\<open>change !== null && !isNaN(change)\<close>; its
  colour and arrow follow \<^verbatim>\<open>change >= 0\<close>, its number is
  \<^verbatim>\<open>Math.abs(change).toFixed(1)\<close>, followed by a percent sign.
\<close>

definition signedLine :: "host \<Rightarrow> nat \<Rightarrow> jsnum \<Rightarrow> change_line" where
  "signedLine h f c =
     \<lparr>tone = (if num_ge0 c then ''text-green-600'' else ''text-red-600''),
      arrow = (if num_ge0 c then Up else Down),
      magnitude = toFixed h f (num_abs c)\<rparr>"

fun changeLine :: "host \<Rightarrow> jsnum option \<Rightarrow> change_line slot" where
  "changeLine h None = Skipped (Bool False)"
| "changeLine h (Some c) = (if isNaN c then Skipped (Bool False) else Shown (signedLine h 1 c))"

text \<open>\<^verbatim>\<open>new Date(v).toLocaleDateString()\<close>: the constructor converts an object first.\<close>

definition localeDate :: "host \<Rightarrow> jsval \<Rightarrow> exn + string" where
  "localeDate h v =
     (if unconvertible v then Inl (TypeError ''toString'') else Inr (dateString h v))"

text \<open>
  The parameters \<open>previousValue\<close>, \<open>date\<close> and \<open>formatFn\<close> have defaults, taken when the
  caller passes \<open>undefined\<close> (for the formatter: \<open>None\<close>).
\<close>

definition renderMetricCard ::
    "host \<Rightarrow> string \<Rightarrow> jsval \<Rightarrow> jsval \<Rightarrow> jsval \<Rightarrow> (jsval \<Rightarrow> exn + string) option
       \<Rightarrow> exn + metric_card" where
  "renderMetricCard h title v previousValue date formatFn =
     (let previousValue = (if previousValue = Undefined then Null else previousValue);
          date = (if date = Undefined then Null else date);
          formatFn = (case formatFn of None \<Rightarrow> formatCurrency h | Some f \<Rightarrow> f)
      in andThen (percentChange h v previousValue) (\<lambda>change.
         andThen (formatFn v) (\<lambda>amount.
         andThen (if truthy date then andThen (localeDate h date) (\<lambda>d. Inr (Shown d))
                  else Inr (Skipped date)) (\<lambda>dateLine.
         Inr \<lparr>card_title = title, card_amount = amount, card_date = dateLine,
              card_change = changeLine h change\<rparr>))))"

subsection \<open>The company header (lines 149 to 179)\<close>

record header_view =
  hd_name :: jsval
  hd_ticker :: jsval
  hd_sector :: jsval
  hd_industry :: jsval
  hd_marketCap :: string
  hd_eps :: string
  hd_employees :: string
  hd_price :: string
  hd_priceChange :: "change_line slot"
  hd_lastUpdated :: jsval

definition companyField :: "jsval \<Rightarrow> string \<Rightarrow> exn + jsval" where
  "companyField d k = andThen (getProp d ''company_info'') (\<lambda>ci. getProp ci k)"

text \<open>
  \<^verbatim>\<open>v.toLocaleString()\<close>: a read on \<open>null\<close> or \<open>undefined\<close> throws, and so does the call
  when a parsed object hides the method, or the \<^verbatim>\<open>toString\<close> the inherited one calls.
\<close>

fun unlocalisable :: "jsval \<Rightarrow> bool" where
  "unlocalisable (Obj kvs) =
     (''toLocaleString'' \<in> set (map fst kvs) \<or> ''toString'' \<in> set (map fst kvs))"
| "unlocalisable (Arr xs) = list_ex unlocalisable xs"
| "unlocalisable v = False"

definition callToLocaleString :: "host \<Rightarrow> jsval \<Rightarrow> exn + string" where
  "callToLocaleString h v =
     (if nullish v \<or> unlocalisable v then Inl (TypeError ''toLocaleString'')
      else Inr (localeString h v))"

definition priceChangeLine :: "host \<Rightarrow> jsval \<Rightarrow> exn + change_line slot" where
  "priceChangeLine h pc =
     (if truthy pc then andThen (toNumber h pc) (\<lambda>n. Inr (Shown (signedLine h 2 n)))
      else Inr (Skipped pc))"

definition renderHeader :: "host \<Rightarrow> jsval \<Rightarrow> exn + header_view" where
  "renderHeader h d =
     andThen (companyField d ''name'') (\<lambda>name.
     andThen (companyField d ''ticker'') (\<lambda>tick.
     andThen (companyField d ''sector'') (\<lambda>sector.
     andThen (companyField d ''industry'') (\<lambda>industry.
     andThen (andThen (companyField d ''marketCap'') (formatCurrency h)) (\<lambda>cap.
     andThen (andThen (companyField d ''eps'') (formatCurrency h)) (\<lambda>eps.
     andThen (andThen (companyField d ''employees'') (callToLocaleString h)) (\<lambda>employees.
     andThen (andThen (companyField d ''currentPrice'') (formatPrice h)) (\<lambda>price.
     andThen (andThen (companyField d ''priceChange'') (priceChangeLine h)) (\<lambda>pc.
     andThen (companyField d ''lastUpdated'') (\<lambda>updated.
     Inr \<lparr>hd_name = name, hd_ticker = tick, hd_sector = sector, hd_industry = industry,
          hd_marketCap = cap, hd_eps = eps, hd_employees = employees, hd_price = price,
          hd_priceChange = pc, hd_lastUpdated = updated\<rparr>))))))))))"

subsection \<open>The data period (lines 182 to 194)\<close>

text \<open>\<^verbatim>\<open>new Date(data.quarterly_data[i].date).toLocaleDateString()\<close>, for \<open>i\<close> 0 and then 1.\<close>

definition quarter :: "host \<Rightarrow> jsval \<Rightarrow> nat \<Rightarrow> exn + jsval" where
  "quarter h d i = andThen (getProp d ''quarterly_data'') (\<lambda>qd. getIndex h qd i)"

definition quarterDate :: "host \<Rightarrow> jsval \<Rightarrow> nat \<Rightarrow> exn + string" where
  "quarterDate h d i =
     andThen (quarter h d i) (\<lambda>q. andThen (getProp q ''date'') (localeDate h))"

definition renderPeriod :: "host \<Rightarrow> jsval \<Rightarrow> exn + string \<times> string" where
  "renderPeriod h d =
     andThen (quarterDate h d 0) (\<lambda>latest.
     andThen (quarterDate h d 1) (\<lambda>previous. Inr (latest, previous)))"

subsection \<open>The four metric cards (lines 196 to 223)\<close>

text \<open>
  \<^verbatim>\<open>data.quarterly_data[0].metrics.M\<close> and
  \<^verbatim>\<open>data.quarterly_data[1]?.metrics.M\<close>: the optional chain stops at a missing record.
\<close>

definition latestMetric :: "host \<Rightarrow> jsval \<Rightarrow> string \<Rightarrow> exn + jsval" where
  "latestMetric h d m =
     andThen (quarter h d 0) (\<lambda>q. andThen (getProp q ''metrics'') (\<lambda>ms. getProp ms m))"

definition previousMetric :: "host \<Rightarrow> jsval \<Rightarrow> string \<Rightarrow> exn + jsval" where
  "previousMetric h d m =
     andThen (quarter h d 1) (\<lambda>q.
       if nullish q then Inr Undefined
       else andThen (getProp q ''metrics'') (\<lambda>ms. getProp ms m))"

definition metricCardOf ::
    "host \<Rightarrow> jsval \<Rightarrow> string \<Rightarrow> string \<Rightarrow> bool \<Rightarrow> (jsval \<Rightarrow> exn + string) option
       \<Rightarrow> exn + metric_card" where
  "metricCardOf h d title m dated formatFn =
     andThen (latestMetric h d m) (\<lambda>v.
     andThen (previousMetric h d m) (\<lambda>p.
     andThen (if dated then andThen (quarter h d 0) (\<lambda>q. getProp q ''date'') else Inr Undefined)
       (\<lambda>date. renderMetricCard h title v p date formatFn)))"

definition renderCards :: "host \<Rightarrow> jsval \<Rightarrow> exn + metric_card list slot" where
  "renderCards h d =
     andThen (quarter h d 0) (\<lambda>q0.
       if \<not> truthy q0 then Inr (Skipped q0)
       else
         andThen (metricCardOf h d ''Revenue'' ''Revenue'' True None) (\<lambda>c1.
         andThen (metricCardOf h d ''Net Income'' ''NetIncome'' False None) (\<lambda>c2.
         andThen (metricCardOf h d ''Profit Margin'' ''ProfitMargin'' False
                    (Some (formatPercent h))) (\<lambda>c3.
         andThen (metricCardOf h d ''Total Assets'' ''Assets'' False None) (\<lambda>c4.
         Inr (Shown [c1, c2, c3, c4]))))))"

subsection \<open>The chart adapter (lines 231 to 236)\<close>

record chart_row =
  row_date :: jsval
  row_revenue :: jsval
  row_netIncome :: jsval
  row_profitMargin :: jsval

definition chartRow :: "jsval \<Rightarrow> exn + chart_row" where
  "chartRow q =
     andThen (getProp q ''date'') (\<lambda>date.
     andThen (andThen (getProp q ''metrics'') (\<lambda>ms. getProp ms ''Revenue'')) (\<lambda>revenue.
     andThen (andThen (getProp q ''metrics'') (\<lambda>ms. getProp ms ''NetIncome'')) (\<lambda>netIncome.
     andThen (andThen (getProp q ''metrics'') (\<lambda>ms. getProp ms ''ProfitMargin'')) (\<lambda>margin.
     Inr \<lparr>row_date = date, row_revenue = revenue, row_netIncome = netIncome,
          row_profitMargin = margin\<rparr>))))"

text \<open>\<^verbatim>\<open>quarterly_data.map(q => ...)\<close>: only an array has the method.\<close>

fun chartData :: "jsval \<Rightarrow> exn + chart_row list" where
  "chartData (Arr qs) = mapM chartRow qs"
| "chartData v = Inl (TypeError ''map'')"

definition renderChart :: "host \<Rightarrow> jsval \<Rightarrow> exn + chart_row list slot" where
  "renderChart h d =
     (if recharts h
      then andThen (getProp d ''quarterly_data'') (\<lambda>qd.
           andThen (chartData qd) (\<lambda>rows. Inr (Shown rows)))
      else Inr (Skipped Undefined))"

subsection \<open>The analysis buttons and the analysis text (lines 267 to 307)\<close>

record analysis_button =
  btn_type :: string
  btn_label :: string
  btn_disabled :: bool

definition renderButtons :: "view_state \<Rightarrow> analysis_button list" where
  "renderButtons st =
     map (\<lambda>ty. \<lparr>btn_type = ty,
                btn_label = (if ty = ''analyze'' then ''Analyze Financials''
                             else if ty = ''predict'' then ''Predict Next Quarter''
                             else ''Risk Assessment''),
                btn_disabled = loadingAnalysis st\<rparr>)
       [''analyze'', ''predict'', ''risk'']"

text \<open>\<^verbatim>\<open>s.split('\n\n')\<close>, the part read so far kept in reverse.\<close>

fun splitParagraphs :: "string \<Rightarrow> string \<Rightarrow> string list" where
  "splitParagraphs acc (c # d # cs) =
     (if c = CHR 0x0A \<and> d = CHR 0x0A then rev acc # splitParagraphs [] cs
      else splitParagraphs (c # acc) (d # cs))"
| "splitParagraphs acc [c] = [rev (c # acc)]"
| "splitParagraphs acc [] = [rev acc]"

definition renderAnalysis :: "view_state \<Rightarrow> exn + (string \<times> string list) slot" where
  "renderAnalysis st =
     (if truthy (analysisContent st)
      then (case analysisContent st of
              Str s \<Rightarrow>
                Inr (Shown
                  (if analysisType st = Str ''analyze'' then ''Financial Analysis''
                   else if analysisType st = Str ''predict'' then ''Next Quarter Prediction''
                   else ''Risk Assessment'',
                   splitParagraphs [] s))
            | _ \<Rightarrow> Inl (TypeError ''split''))
      else Inr (Skipped (analysisContent st)))"

subsection \<open>The component (lines 120 to 311)\<close>

record dashboard_body =
  db_header :: header_view
  db_period :: "string \<times> string"
  db_cards :: "metric_card list slot"
  db_chart :: "chart_row list slot"
  db_buttons :: "analysis_button list"
  db_spinner :: bool
  db_analysis :: "(string \<times> string list) slot"

record dashboard =
  search_disabled :: bool
  search_label :: string
  error_banner :: "string slot"
  dataset_view :: "dashboard_body slot"

definition renderBody :: "host \<Rightarrow> view_state \<Rightarrow> exn + dashboard_body" where
  "renderBody h st =
     andThen (renderHeader h (data st)) (\<lambda>header.
     andThen (renderPeriod h (data st)) (\<lambda>period.
     andThen (renderCards h (data st)) (\<lambda>cards.
     andThen (renderChart h (data st)) (\<lambda>chart.
     andThen (renderAnalysis st) (\<lambda>analysis.
     Inr \<lparr>db_header = header, db_period = period, db_cards = cards, db_chart = chart,
          db_buttons = renderButtons st, db_spinner = loadingAnalysis st,
          db_analysis = analysis\<rparr>)))))"

definition render :: "host \<Rightarrow> view_state \<Rightarrow> exn + dashboard" where
  "render h st =
     andThen (if truthy (data st) then andThen (renderBody h st) (\<lambda>b. Inr (Shown b))
              else Inr (Skipped (data st))) (\<lambda>body.
     Inr \<lparr>search_disabled = (loading st \<or> ticker st = []),
          search_label = (if loading st then ''Searching...'' else ''Search''),
          error_banner = (if error st = [] then Skipped (Str []) else Shown (error st)),
          dataset_view = body\<rparr>)"

section \<open>Example inputs\<close>

text \<open>
  A host whose built-ins answer with fixed texts, so that an example shows at once which
  part of a result the host wrote; it reads every string as \<open>NaN\<close> and has the charts.
\<close>

definition plainHost :: host where
  "plainHost =
     \<lparr>priceFormat = (\<lambda>v. ''<price>''), compactFormat = (\<lambda>v. ''<compact>''),
      dateString = (\<lambda>v. ''<date>''), localeString = (\<lambda>v. ''<locale>''),
      finiteToString = (\<lambda>q. ''<number>''), stringToNumber = (\<lambda>s. NaN),
      typeErrorMessage = (\<lambda>w. ''<TypeError>''), upperCase = (\<lambda>s. ''<upper>''),
      unitAt = (\<lambda>s i. None), recharts = True\<rparr>"

definition companyInfo :: jsval where
  "companyInfo =
     Obj [(''name'', Str ''Apple Inc.''), (''ticker'', Str ''AAPL''),
          (''sector'', Str ''Technology''), (''industry'', Str ''Consumer Electronics''),
          (''marketCap'', Num (Fin 3000000000000)), (''eps'', Num (Fin 6)),
          (''employees'', Num (Fin 160000)), (''currentPrice'', Num (Fin 190)),
          (''priceChange'', Num (Fin 1)), (''lastUpdated'', Str ''2024-01-31'')]"

definition quarterOf :: "string \<Rightarrow> rat \<Rightarrow> rat \<Rightarrow> jsval" where
  "quarterOf day revenue income =
     Obj [(''date'', Str day),
          (''metrics'', Obj [(''Revenue'', Num (Fin revenue)), (''NetIncome'', Num (Fin income)),
                            (''ProfitMargin'', Null), (''Assets'', Num (Fin 350))])]"

text \<open>A snapshot with one quarterly record, and one with two.\<close>

definition snapshotOne :: jsval where
  "snapshotOne =
     Obj [(''company_info'', companyInfo),
          (''quarterly_data'', Arr [quarterOf ''2023-12-30'' 120 34])]"

definition snapshotTwo :: jsval where
  "snapshotTwo =
     Obj [(''company_info'', companyInfo),
          (''quarterly_data'',
             Arr [quarterOf ''2023-12-30'' 120 34, quarterOf ''2023-09-30'' 100 23])]"

text \<open>A large double: twice its value is beyond the largest one.\<close>

definition hugeValue :: rat where
  "hugeValue = 2 ^ 1023"

text \<open>The view with \<^verbatim>\<open>aapl\<close> typed in, and the view showing the second snapshot.\<close>

definition typedState :: view_state where
  "typedState = initialState\<lparr>ticker := ''aapl''\<rparr>"

definition loadedState :: view_state where
  "loadedState = initialState\<lparr>ticker := ''aapl'', data := snapshotTwo\<rparr>"

section \<open>Basic facts\<close>

declare decimal.simps [simp del]

declare ilog2.simps [simp del]

subsection \<open>The binade of a rational\<close>

lemma ilog2_nonneg: "0 \<le> ilog2 n"
  by (induction n rule: ilog2.induct) (subst ilog2.simps, simp)

lemma ilog2_bounds:
  "0 < n \<Longrightarrow> 2 ^ nat (ilog2 n) \<le> n \<and> n < 2 * 2 ^ nat (ilog2 n)"
proof (induction n rule: ilog2.induct)
  case (1 n)
  show ?case
  proof (cases "n < 2")
    case True
    with 1(2) have "n = 1" by simp
    then show ?thesis by (subst (1 2) ilog2.simps) simp
  next
    case False
    then have pos: "0 < n div 2" by simp
    from 1(1)[OF False pos] have ih: "2 ^ nat (ilog2 (n div 2)) \<le> n div 2"
      "n div 2 < 2 * 2 ^ nat (ilog2 (n div 2))" by simp_all
    have e: "ilog2 n = 1 + ilog2 (n div 2)"
      using False by (subst ilog2.simps) simp
    have n: "nat (1 + ilog2 (n div 2)) = Suc (nat (ilog2 (n div 2)))"
      using ilog2_nonneg[of "n div 2"] by simp
    from ih show ?thesis
      unfolding e n by simp linarith
  qed
qed

lemma ilog2_powi:
  assumes "0 < n"
  shows "power_int 2 (ilog2 n) \<le> (of_int n :: rat)"
    and "(of_int n :: rat) < power_int 2 (ilog2 n + 1)"
proof -
  from ilog2_bounds[OF assms] have a: "2 ^ nat (ilog2 n) \<le> n" and b: "n < 2 * 2 ^ nat (ilog2 n)"
    by simp_all
  have p: "power_int (2::rat) (ilog2 n) = 2 ^ nat (ilog2 n)"
    using ilog2_nonneg[of n] by (simp add: power_int_def)
  from a have "(of_int (2 ^ nat (ilog2 n)) :: rat) \<le> of_int n"
    by (simp only: of_int_le_iff)
  then show "power_int 2 (ilog2 n) \<le> (of_int n :: rat)"
    by (simp add: p)
  from b have "(of_int n :: rat) < of_int (2 * 2 ^ nat (ilog2 n))"
    by (simp only: of_int_less_iff)
  then show "(of_int n :: rat) < power_int 2 (ilog2 n + 1)"
    by (simp add: p power_int_add)
qed

text \<open>\<open>exponentOf a\<close> is the binade of a positive \<open>a\<close>, and the only one.\<close>

lemma exponentOf_bounds:
  assumes "0 < a"
  shows "power_int 2 (exponentOf a) \<le> a \<and> a < power_int 2 (exponentOf a + 1)"
proof -
  obtain p q where pq: "quotient_of a = (p, q)" by (cases "quotient_of a")
  then have q: "0 < q" and a: "a = of_int p / of_int q"
    by (simp_all add: quotient_of_denom_pos quotient_of_div)
  with assms have p: "0 < p"
    by (simp add: zero_less_divide_iff)
  define e where "e = ilog2 p - ilog2 q"
  have ex: "exponentOf a = (if power_int 2 e \<le> a then e else e - 1)"
    by (simp add: exponentOf_def pq e_def Let_def)
  have qr: "0 < (of_int q :: rat)" using q by simp
  have up: "a < power_int 2 (e + 1)"
  proof -
    have "(of_int p :: rat) < power_int 2 (ilog2 p + 1)" by (rule ilog2_powi[OF p])
    also have "\<dots> = power_int 2 (e + 1) * power_int 2 (ilog2 q)"
      by (simp add: e_def power_int_add[symmetric])
    also have "\<dots> \<le> power_int 2 (e + 1) * of_int q"
      using ilog2_powi(1)[OF q] by (intro mult_left_mono) simp_all
    finally show ?thesis
      using qr by (simp add: a pos_divide_less_eq)
  qed
  have low: "power_int 2 (e - 1) \<le> a"
  proof -
    have "power_int 2 (e - 1) * (of_int q :: rat)
        \<le> power_int 2 (e - 1) * power_int 2 (ilog2 q + 1)"
      using ilog2_powi(2)[OF q] by (intro mult_left_mono) simp_all
    also have "\<dots> = power_int 2 (ilog2 p)"
      by (simp add: e_def power_int_add[symmetric])
    also have "\<dots> \<le> (of_int p :: rat)" by (rule ilog2_powi[OF p])
    finally show ?thesis
      using qr by (simp add: a pos_le_divide_eq)
  qed
  show ?thesis
  proof (cases "power_int 2 e \<le> a")
    case True
    with up ex show ?thesis by simp
  next
    case False
    with low ex show ?thesis by simp
  qed
qed

lemma powi2_less_cancel:
  assumes "power_int (2::rat) m < power_int 2 n"
  shows "m < n"
proof (rule ccontr)
  assume "\<not> m < n"
  then have "n \<le> m" by simp
  then have "power_int (2::rat) n \<le> power_int 2 m"
    by (rule power_int_increasing) simp
  with assms show False by simp
qed

lemma exponentOf_unique:
  assumes "power_int 2 e \<le> a" and "a < power_int 2 (e + 1)"
  shows "exponentOf a = e"
proof -
  have "0 < power_int (2::rat) e" by (rule zero_less_power_int) simp
  with assms(1) have pos: "0 < a" by linarith
  from exponentOf_bounds[OF pos] have b: "power_int 2 (exponentOf a) \<le> a"
    "a < power_int 2 (exponentOf a + 1)" by simp_all
  from b(1) assms(2) have "power_int (2::rat) (exponentOf a) < power_int 2 (e + 1)" by simp
  then have 1: "exponentOf a < e + 1"
    by (rule powi2_less_cancel)
  from assms(1) b(2) have "power_int (2::rat) e < power_int 2 (exponentOf a + 1)" by simp
  then have 2: "e < exponentOf a + 1"
    by (rule powi2_less_cancel)
  from 1 2 show ?thesis by simp
qed

lemma floor_rat_numeral [simp]:
  "\<lfloor>numeral a / numeral b :: rat\<rfloor> = numeral a div numeral b"
  by (metis floor_divide_of_int_eq of_int_numeral)

text \<open>Rounding a rational whose binade is known.\<close>

lemma roundDouble_binade:
  assumes "power_int 2 e \<le> a" and "a < power_int 2 (e + 1)"
  shows "roundDouble neg a =
     (let r = nearest e a
      in if 2 ^ 1024 \<le> r then signedInf neg
         else if r = 0 then signedZero neg
         else Fin (if neg then - r else r))"
proof -
  have "0 < power_int (2::rat) e" by (rule zero_less_power_int) simp
  with assms(1) have "0 < a" by linarith
  then have "a \<noteq> 0" by simp
  then show ?thesis
    by (simp add: roundDouble_def exponentOf_unique[OF assms])
qed

lemma roundDouble_not_NaN [simp]: "roundDouble neg a \<noteq> NaN"
  by (simp add: roundDouble_def signedZero_def signedInf_def Let_def)

lemma num_sub_not_NaN: "num_sub (Fin x) (Fin y) \<noteq> NaN"
  by (simp add: num_sub_def num_add_def signedZero_def Let_def)

lemma num_div_not_NaN:
  "x \<noteq> NaN \<Longrightarrow> y \<noteq> 0 \<Longrightarrow> num_div x (Fin y) \<noteq> NaN"
  by (simp add: num_div_def signedZero_def signedInf_def)

lemma num_mul_not_NaN:
  "x \<noteq> NaN \<Longrightarrow> y \<noteq> 0 \<Longrightarrow> num_mul x (Fin y) \<noteq> NaN"
  by (simp add: num_mul_def signedInf_def)

subsection \<open>Sequencing and the two handlers\<close>


lemma andThen_Inl [simp]: "andThen (Inl e) f = Inl e"
  by (simp add: andThen_def)

lemma andThen_Inr [simp]: "andThen (Inr x) f = f x"
  by (simp add: andThen_def)

lemma andThen_isl: "isl m \<Longrightarrow> isl (andThen m f)"
  by (cases m) simp_all

lemma andThen_eq_Inr: "andThen m f = Inr y \<longleftrightarrow> (\<exists>x. m = Inr x \<and> f x = Inr y)"
  by (cases m) simp_all

lemma loadedState_data: "truthy (data loadedState)"
  by (simp add: loadedState_def initialState_def snapshotTwo_def)

lemma handleAnalysisClick_run:
  "truthy (data st) \<Longrightarrow>
   fst (handleAnalysisClick h net ty st) =
     analysisSettle h ty (net (analysisRequest ty st)) (analysisBegin ty st)"
  by (simp add: handleAnalysisClick_def analysisStart_def)

lemma analysisSettle_fail:
  "analysisTry h ty out = Inl e \<Longrightarrow>
   analysisSettle h ty out st = st\<lparr>error := message h e, loadingAnalysis := False\<rparr>"
  by (simp add: analysisSettle_def)

lemma analysisSettle_success:
  "analysisTry h ty out = Inr v \<Longrightarrow>
   analysisSettle h ty out st = st\<lparr>analysisContent := v, loadingAnalysis := False\<rparr>"
  by (simp add: analysisSettle_def)

lemma typedState_ticker: "ticker typedState \<noteq> []"
  by (simp add: typedState_def initialState_def)

lemma handleSearch_run:
  "ticker st \<noteq> [] \<Longrightarrow>
   fst (handleSearch h net st) = searchSettle h (net (searchRequest h st)) (searchBegin st)"
  by (simp add: handleSearch_def searchStart_def)


lemma searchSettle_success:
  "searchSettle h (Response True (Json d)) st = st\<lparr>data := d, loading := False\<rparr>"
  by (simp add: searchSettle_def)

section \<open>Rendering a snapshot with fewer than two quarters\<close>

text \<open>
  The data period block reads \<^verbatim>\<open>data.quarterly_data[0].date\<close> and
  \<^verbatim>\<open>data.quarterly_data[1].date\<close> with no guard. With fewer than two records one of the
  two reads is a read on \<open>undefined\<close>.
\<close>

lemma renderPeriod_short:
  assumes "getProp d ''quarterly_data'' = Inr (Arr qs)" and "length qs < 2"
  shows "isl (renderPeriod h d)"
proof (cases "quarterDate h d 0")
  case (Inl e)
  then show ?thesis by (simp add: renderPeriod_def)
next
  case (Inr latest)
  have "quarter h d 1 = Inr Undefined"
    using assms by (simp add: quarter_def)
  then have "isl (quarterDate h d 1)"
    by (simp add: quarterDate_def)
  with Inr show ?thesis
    by (simp add: renderPeriod_def andThen_isl)
qed

lemma render_short:
  assumes "truthy (data st)" and "getProp (data st) ''quarterly_data'' = Inr (Arr qs)"
    and "length qs < 2"
  shows "isl (render h st)"
proof -
  have "isl (renderPeriod h (data st))"
    using assms(2,3) by (rule renderPeriod_short)
  then have "isl (renderBody h st)"
    unfolding renderBody_def
    by (cases "renderHeader h (data st)") (simp_all add: andThen_isl)
  with assms(1) show ?thesis
    by (simp add: render_def andThen_isl)
qed

text \<open>
  C1. The claim asks that rendering after a successful fetch does not fail when
  \<open>quarterly_data\<close> has fewer than two entries. The code does fail there: after a search
  that succeeds with such a snapshot, the dataset is the snapshot and the component
  function throws. (The metric cards guard the same reads with \<^verbatim>\<open>&&\<close> and \<^verbatim>\<open>?.\<close>;
  the data period block does not.)
\<close>

theorem render_throws_on_short_quarterly_data:
  assumes "ticker st \<noteq> []" and "net (searchRequest h st) = Response True (Json d)"
    and "truthy d" and "getProp d ''quarterly_data'' = Inr (Arr qs)" and "length qs < 2"
  shows "data (fst (handleSearch h net st)) = d \<and>
         isl (render h (fst (handleSearch h net st)))"
proof -
  have d: "data (fst (handleSearch h net st)) = d"
    using assms(1,2) by (simp add: handleSearch_run searchSettle_success)
  with assms(3-5) have "isl (render h (fst (handleSearch h net st)))"
    by (intro render_short[where qs = qs]) simp_all
  with d show ?thesis by simp
qed

theorem render_throws_on_short_quarterly_data_witness:
  "ticker typedState \<noteq> [] \<and> truthy snapshotOne \<and>
   getProp snapshotOne ''quarterly_data'' = Inr (Arr [quarterOf ''2023-12-30'' 120 34]) \<and>
   data (fst (handleSearch plainHost (\<lambda>r. Response True (Json snapshotOne)) typedState))
     = snapshotOne \<and>
   isl (render plainHost
          (fst (handleSearch plainHost (\<lambda>r. Response True (Json snapshotOne)) typedState))) \<and>
   render plainHost
     (fst (handleSearch plainHost (\<lambda>r. Response True (Json snapshotOne)) typedState))
     = Inl (TypeError ''date'')"
proof -
  have s: "truthy snapshotOne"
    by (simp add: snapshotOne_def)
  have q: "getProp snapshotOne ''quarterly_data'' = Inr (Arr [quarterOf ''2023-12-30'' 120 34])"
    by (simp add: snapshotOne_def)
  have e: "render plainHost
      (fst (handleSearch plainHost (\<lambda>r. Response True (Json snapshotOne)) typedState))
     = Inl (TypeError ''date'')"
    by code_simp
  from render_throws_on_short_quarterly_data
    [of typedState "\<lambda>r. Response True (Json snapshotOne)" plainHost snapshotOne
      "[quarterOf ''2023-12-30'' 120 34]"]
    typedState_ticker s q e
  show ?thesis by simp
qed

section \<open>Submitting a ticker search\<close>





section \<open>A failed ticker search\<close>







section \<open>The loading flags\<close>

text \<open>
  C6. However the request ends (a rejected \<^verbatim>\<open>fetch\<close>, a non-2xx response, a body that
  does not parse, a success), the \<^verbatim>\<open>finally\<close> block has cleared the flag of its
  family when the handler is done.
\<close>

theorem loading_flags_cleared:
  "\<not> loading (searchSettle h out st) \<and>
   \<not> loadingAnalysis (analysisSettle h ty out st) \<and>
   (ticker st \<noteq> [] \<longrightarrow> \<not> loading (fst (handleSearch h net st))) \<and>
   (truthy (data st) \<longrightarrow> \<not> loadingAnalysis (fst (handleAnalysisClick h net ty st)))"
  by (simp add: searchSettle_def analysisSettle_def handleSearch_def handleAnalysisClick_def
      searchStart_def analysisStart_def split: sum.split)

theorem loading_flags_cleared_witness:
  "ticker typedState \<noteq> [] \<and> truthy (data loadedState) \<and>
   \<not> loading (fst (handleSearch plainHost
        (\<lambda>r. Response True (Malformed ''Unexpected token'')) typedState)) \<and>
   \<not> loadingAnalysis (fst (handleAnalysisClick plainHost
        (\<lambda>r. Response False (Malformed ''Unexpected token'')) ''risk'' loadedState)) \<and>
   \<not> loading (searchSettle plainHost (NetworkError ''offline'') (searchBegin typedState))"
  using
    loading_flags_cleared[of plainHost "NetworkError ''offline''" "searchBegin typedState"
      "''risk''" "\<lambda>r. Response True (Malformed ''Unexpected token'')"]
    loading_flags_cleared[of plainHost "NetworkError ''offline''" typedState
      "''risk''" "\<lambda>r. Response True (Malformed ''Unexpected token'')"]
    loading_flags_cleared[of plainHost "NetworkError ''offline''" loadedState
      "''risk''" "\<lambda>r. Response False (Malformed ''Unexpected token'')"]
  by (simp add: typedState_def loadedState_def initialState_def snapshotTwo_def)

section \<open>The formatters\<close>

text \<open>
  C2, as the code has it. Each formatter answers \<^verbatim>\<open>N/A\<close> for \<open>null\<close> and for
  \<open>undefined\<close>. \<open>NaN\<close> is not among the absent values: it is a number like any other
  and is handed on, so that \<^verbatim>\<open>formatPercent(NaN)\<close> is \<^verbatim>\<open>NaN%\<close>. \<^verbatim>\<open>formatPrice\<close> and
  \<^verbatim>\<open>formatCurrency\<close> return the host's text for every value that converts to a
  primitive; \<^verbatim>\<open>formatPercent\<close> returns the \<^verbatim>\<open>toFixed(2)\<close> text of every number and
  throws a \<^verbatim>\<open>TypeError\<close> on every other value that is not \<open>null\<close> or \<open>undefined\<close>.
\<close>

theorem formatters_absent_values:
  "formatPrice h Null = Inr ''N/A'' \<and> formatPrice h Undefined = Inr ''N/A''
   \<and> formatCurrency h Null = Inr ''N/A'' \<and> formatCurrency h Undefined = Inr ''N/A''
   \<and> formatPercent h Null = Inr ''N/A'' \<and> formatPercent h Undefined = Inr ''N/A''
   \<and> (v \<noteq> Null \<and> v \<noteq> Undefined \<and> \<not> unconvertible v \<longrightarrow>
        formatPrice h v = Inr (priceFormat h v) \<and>
        formatCurrency h v = Inr (compactFormat h v))
   \<and> formatPrice h (Num NaN) = Inr (priceFormat h (Num NaN))
   \<and> formatCurrency h (Num NaN) = Inr (compactFormat h (Num NaN))
   \<and> formatPercent h (Num n) = Inr (toFixed h 2 n @ ''%'')
   \<and> formatPercent h (Num NaN) = Inr ''NaN%''
   \<and> (v \<noteq> Null \<and> v \<noteq> Undefined \<and> (\<forall>n. v \<noteq> Num n) \<longrightarrow>
        formatPercent h v = Inl (TypeError ''toFixed''))"
proof -
  have "formatPercent h v = Inl (TypeError ''toFixed'')"
    if "v \<noteq> Null" "v \<noteq> Undefined" "\<forall>n. v \<noteq> Num n"
    using that by (cases v) (simp_all add: formatPercent_def)
  then show ?thesis
    by (simp add: formatPrice_def formatCurrency_def formatPercent_def)
qed

theorem formatters_absent_values_witness:
  "formatPrice plainHost Null = Inr ''N/A''
   \<and> formatCurrency plainHost Undefined = Inr ''N/A''
   \<and> formatPrice plainHost (Num (Fin (2469 / 2))) = Inr ''<price>''
   \<and> formatCurrency plainHost (Num (Fin 1200000)) = Inr ''<compact>''
   \<and> numberLiteral (12345 / 1000) = Fin (6949617174986097 / 562949953421312)
   \<and> formatPercent plainHost (Num (numberLiteral (12345 / 1000))) = Inr ''12.35%''
   \<and> formatPercent plainHost (Str ''12'') = Inl (TypeError ''toFixed'')"
proof -
  have l: "numberLiteral (12345 / 1000) = Fin (6949617174986097 / 562949953421312)"
    by (simp add: numberLiteral_def roundDouble_binade[where e = 3] nearest_def
        roundHalfEven_def Let_def)
  have d: "toFixed plainHost 2 (Fin (6949617174986097 / 562949953421312)) = ''12.35''"
    by code_simp
  show ?thesis
    using l d
      formatters_absent_values[of plainHost "Num (Fin (2469 / 2))"
        "Fin (6949617174986097 / 562949953421312)"]
      formatters_absent_values[of plainHost "Num (Fin 1200000)"
        "Fin (6949617174986097 / 562949953421312)"]
      formatters_absent_values[of plainHost "Str ''12''"
        "Fin (6949617174986097 / 562949953421312)"]
    by (simp add: plainHost_def del: toFixed.simps)
qed

text \<open>
  The claim as written fails at \<open>NaN\<close>, which \<^verbatim>\<open>formatPercent\<close> does not answer with
  \<^verbatim>\<open>N/A\<close>, and at a string, on which \<^verbatim>\<open>formatPercent\<close> throws.
\<close>

theorem formatPercent_nan_not_absent:
  "formatPercent plainHost (Num NaN) = Inr ''NaN%'' \<and>
   formatPercent plainHost (Num NaN) \<noteq> Inr ''N/A'' \<and>
   formatPercent plainHost (Str ''12'') = Inl (TypeError ''toFixed'')"
  by (simp add: formatPercent_def)

section \<open>Requesting an analysis\<close>

text \<open>
  C5. For each of the three kinds: without a dataset the handler does nothing; with one it
  issues a POST to \<^verbatim>\<open>/api/\<close> followed by the kind, with the current dataset as the JSON
  body, records the kind as the selected one, and after a 2xx response whose body is an
  object stores the body's \<open>analysis\<close>, \<open>prediction\<close> or \<open>risk_assessment\<close> field as the
  analysis text.
\<close>

theorem requestAnalysis_effects:
  assumes "ty \<in> {''analyze'', ''predict'', ''risk''}"
  shows "(\<not> truthy (data st) \<longrightarrow>
            analysisStart ty st = (st, None) \<and> handleAnalysisClick h net ty st = (st, []))
       \<and> (truthy (data st) \<longrightarrow>
            snd (handleAnalysisClick h net ty st) =
              [\<lparr>req_verb = POST, req_url = ''/api/'' @ ty,
                req_headers = [(''Content-Type'', ''application/json'')],
                req_body = Some (data st)\<rparr>] \<and>
            analysisType (fst (analysisStart ty st)) = Str ty \<and>
            analysisType (fst (handleAnalysisClick h net ty st)) = Str ty)
       \<and> (truthy (data st) \<and>
          net (analysisRequest ty st) = Response True (Json (Obj kvs)) \<longrightarrow>
            analysisContent (fst (handleAnalysisClick h net ty st)) =
              (case map_of kvs
                 (if ty = ''analyze'' then ''analysis''
                  else if ty = ''predict'' then ''prediction'' else ''risk_assessment'') of
                 Some v \<Rightarrow> v | None \<Rightarrow> Undefined))"
proof -
  have a: "\<not> truthy (data st) \<Longrightarrow>
      analysisStart ty st = (st, None) \<and> handleAnalysisClick h net ty st = (st, [])"
    by (simp add: handleAnalysisClick_def analysisStart_def)
  have b: "truthy (data st) \<Longrightarrow>
      snd (handleAnalysisClick h net ty st) =
              [\<lparr>req_verb = POST, req_url = ''/api/'' @ ty,
                req_headers = [(''Content-Type'', ''application/json'')],
                req_body = Some (data st)\<rparr>] \<and>
            analysisType (fst (analysisStart ty st)) = Str ty \<and>
            analysisType (fst (handleAnalysisClick h net ty st)) = Str ty"
    by (simp add: handleAnalysisClick_def analysisStart_def analysisRequest_def
        analysisBegin_def analysisSettle_def split: sum.split)
  have c: "analysisContent (fst (handleAnalysisClick h net ty st)) =
              (case map_of kvs
                 (if ty = ''analyze'' then ''analysis''
                  else if ty = ''predict'' then ''prediction'' else ''risk_assessment'') of
                 Some v \<Rightarrow> v | None \<Rightarrow> Undefined)"
    if "truthy (data st)" and "net (analysisRequest ty st) = Response True (Json (Obj kvs))"
    using that by (simp add: handleAnalysisClick_run analysisSettle_def analysisField_def)
  from a b c show ?thesis by blast
qed

theorem requestAnalysis_effects_witness:
  "''risk'' \<in> {''analyze'', ''predict'', ''risk''} \<and> truthy (data loadedState) \<and>
   \<not> truthy (data typedState) \<and>
   handleAnalysisClick plainHost (\<lambda>r. Response True (Json (Obj [(''risk_assessment'', Str ''text'')])))
       ''predict'' typedState = (typedState, []) \<and>
   snd (handleAnalysisClick plainHost (\<lambda>r. Response True (Json (Obj [(''risk_assessment'', Str ''text'')])))
       ''risk'' loadedState) =
     [\<lparr>req_verb = POST, req_url = ''/api/risk'',
       req_headers = [(''Content-Type'', ''application/json'')],
       req_body = Some snapshotTwo\<rparr>] \<and>
   analysisType (fst (handleAnalysisClick plainHost
       (\<lambda>r. Response True (Json (Obj [(''risk_assessment'', Str ''text'')]))) ''risk'' loadedState))
     = Str ''risk'' \<and>
   analysisContent (fst (handleAnalysisClick plainHost
       (\<lambda>r. Response True (Json (Obj [(''risk_assessment'', Str ''text'')]))) ''risk'' loadedState))
     = Str ''text''"
proof -
  have k: "''risk'' \<in> {''analyze'', ''predict'', ''risk''}" "''predict'' \<in> {''analyze'', ''predict'', ''risk''}"
    by simp_all
  have n: "\<not> truthy (data typedState)"
    by (simp add: typedState_def initialState_def)
  have d: "data loadedState = snapshotTwo"
    by (simp add: loadedState_def)
  show ?thesis
    using k(1) n loadedState_data d
      requestAnalysis_effects[OF k(2), of typedState plainHost
        "\<lambda>r. Response True (Json (Obj [(''risk_assessment'', Str ''text'')]))"]
      requestAnalysis_effects[OF k(1), of loadedState plainHost
        "\<lambda>r. Response True (Json (Obj [(''risk_assessment'', Str ''text'')]))"
        "[(''risk_assessment'', Str ''text'')]"]
    by simp
qed

section \<open>The metric card\<close>

lemma renderMetricCard_change:
  assumes "renderMetricCard h title v p date fmt = Inr c"
  shows "\<exists>ch. percentChange h v (if p = Undefined then Null else p) = Inr ch \<and>
              card_change c = changeLine h ch"
  using assms unfolding renderMetricCard_def Let_def
  by (auto simp add: andThen_eq_Inr)

lemma percentChange_falsy: "\<not> truthy p \<Longrightarrow> percentChange h v p = Inr None"
  by (simp add: percentChange_def)

lemma percentChange_truthy:
  assumes "truthy p" and "percentChange h v p = Inr ch"
  shows "\<exists>a b. toNumber h v = Inr a \<and> toNumber h p = Inr b \<and>
           ch = Some (num_mul (num_div (num_sub a b) b) (Fin 100))"
  using assms by (auto simp add: percentChange_def andThen_eq_Inr)

lemma decimal_nonempty: "decimal n \<noteq> []"
  by (subst decimal.simps) simp

lemma fixedDigits_one_place: "\<exists>ds d. fixedDigits 1 x = ds @ ''.'' @ [d] \<and> ds \<noteq> []"
proof -
  define m0 where "m0 = decimal (nat \<lfloor>x * 10 ^ 1 + 1 / 2\<rfloor>)"
  define m where "m = (if length m0 \<le> 1 then replicate (1 + 1 - length m0) (CHR ''0'') @ m0 else m0)"
  have "length m = (if length m0 \<le> 1 then 2 else length m0)"
    by (simp add: m_def)
  then have len: "2 \<le> length m"
    by (simp split: if_splits)
  have eq: "fixedDigits 1 x = take (length m - 1) m @ ''.'' @ drop (length m - 1) m"
    by (simp add: fixedDigits_def Let_def m_def m0_def)
  define l where "l = drop (length m - 1) m"
  from len have "length l = Suc 0" by (simp add: l_def)
  then obtain d where "l = [d]"
    by (cases l) auto
  then have d: "drop (length m - 1) m = [d]" by (simp add: l_def)
  from len have "take (length m - 1) m \<noteq> []" by auto
  with eq d show ?thesis by auto
qed

text \<open>The text of a magnitude below \<open>10^21\<close> has one digit after the point.\<close>

lemma toFixed_abs_one_place:
  assumes "num_abs c = Fin q" and "q < 10 ^ 21"
  shows "\<exists>ds d. toFixed h 1 (num_abs c) = ds @ ''.'' @ [d] \<and> ds \<noteq> []"
proof -
  from assms(1) have "0 \<le> q" by (cases c) auto
  with assms(2) have "toFixed h 1 (Fin q) = fixedDigits 1 q"
    by simp
  with fixedDigits_one_place[of q] assms(1) show ?thesis by simp
qed

text \<open>With a finite value and a finite previous value that is not zero, the change is a number.\<close>

lemma finite_change_not_NaN:
  assumes "y \<noteq> 0"
  shows "num_mul (num_div (num_sub (Fin x) (Fin y)) (Fin y)) (Fin 100) \<noteq> NaN"
proof -
  have "num_div (num_sub (Fin x) (Fin y)) (Fin y) \<noteq> NaN"
    using num_sub_not_NaN assms by (rule num_div_not_NaN)
  then show ?thesis
    by (rule num_mul_not_NaN) simp
qed

text \<open>
  C7, as the code has it. When the card renders, the change line is left out if the
  previous value is falsy (absent, zero, \<open>NaN\<close>). Otherwise the change is
  \<open>(current - previous) / previous * 100\<close>, computed on the two values as numbers in double
  arithmetic, and the line is left out exactly when that change is \<open>NaN\<close>: an infinite
  change is shown. A shown change that is at least zero has the up arrow and the green
  tone, a negative one the down arrow and the red tone, and the number is
  \<^verbatim>\<open>Math.abs(change).toFixed(1)\<close>: for a finite change below \<open>10^21\<close>, digits with one
  digit after the point. For a finite value and a finite previous value other than zero
  the change is never \<open>NaN\<close>, so the line is always there.
\<close>

theorem metric_card_change_indicator:
  assumes "renderMetricCard h title v p date fmt = Inr c"
  shows "(\<not> truthy p \<longrightarrow> card_change c = Skipped (Bool False))
       \<and> (truthy p \<longrightarrow>
            (\<exists>a b. toNumber h v = Inr a \<and> toNumber h p = Inr b \<and>
               (let change = num_mul (num_div (num_sub a b) b) (Fin 100)
                in card_change c =
                     (if change = NaN then Skipped (Bool False)
                      else Shown \<lparr>tone = (if num_ge0 change then ''text-green-600''
                                          else ''text-red-600''),
                                  arrow = (if num_ge0 change then Up else Down),
                                  magnitude = toFixed h 1 (num_abs change)\<rparr>) \<and>
                   (\<forall>q. num_abs change = Fin q \<and> q < 10 ^ 21 \<longrightarrow>
                      (\<exists>ds d. toFixed h 1 (num_abs change) = ds @ ''.'' @ [d] \<and>
                              ds \<noteq> [])))))
       \<and> (v = Num (Fin x) \<and> p = Num (Fin y) \<and> y \<noteq> 0 \<longrightarrow>
            (let change = num_mul (num_div (num_sub (Fin x) (Fin y)) (Fin y)) (Fin 100)
             in change \<noteq> NaN \<and>
                card_change c =
                  Shown \<lparr>tone = (if num_ge0 change then ''text-green-600''
                                  else ''text-red-600''),
                          arrow = (if num_ge0 change then Up else Down),
                          magnitude = toFixed h 1 (num_abs change)\<rparr>))"
proof -
  from renderMetricCard_change[OF assms] obtain ch where
    ch: "percentChange h v (if p = Undefined then Null else p) = Inr ch"
    and cc: "card_change c = changeLine h ch"
    by blast
  have a: "card_change c = Skipped (Bool False)" if "\<not> truthy p"
  proof -
    from that have "\<not> truthy (if p = Undefined then Null else p)" by simp
    from percentChange_falsy[OF this] ch have "ch = None" by simp
    with cc show ?thesis by simp
  qed
  have b: "\<exists>a b. toNumber h v = Inr a \<and> toNumber h p = Inr b \<and>
               (let change = num_mul (num_div (num_sub a b) b) (Fin 100)
                in card_change c =
                     (if change = NaN then Skipped (Bool False)
                      else Shown \<lparr>tone = (if num_ge0 change then ''text-green-600''
                                          else ''text-red-600''),
                                  arrow = (if num_ge0 change then Up else Down),
                                  magnitude = toFixed h 1 (num_abs change)\<rparr>) \<and>
                   (\<forall>q. num_abs change = Fin q \<and> q < 10 ^ 21 \<longrightarrow>
                      (\<exists>ds d. toFixed h 1 (num_abs change) = ds @ ''.'' @ [d] \<and>
                              ds \<noteq> [])))"
    if "truthy p"
  proof -
    from that have p: "(if p = Undefined then Null else p) = p" by auto
    from percentChange_truthy[OF that ch[unfolded p]] obtain a b where
      ab: "toNumber h v = Inr a" "toNumber h p = Inr b"
      "ch = Some (num_mul (num_div (num_sub a b) b) (Fin 100))"
      by blast
    define change where "change = num_mul (num_div (num_sub a b) b) (Fin 100)"
    have line: "card_change c =
        (if change = NaN then Skipped (Bool False)
         else Shown \<lparr>tone = (if num_ge0 change then ''text-green-600'' else ''text-red-600''),
                     arrow = (if num_ge0 change then Up else Down),
                     magnitude = toFixed h 1 (num_abs change)\<rparr>)"
      using cc ab(3) by (simp add: isNaN_def signedLine_def change_def)
    have place: "\<forall>q. num_abs change = Fin q \<and> q < 10 ^ 21 \<longrightarrow>
        (\<exists>ds d. toFixed h 1 (num_abs change) = ds @ ''.'' @ [d] \<and> ds \<noteq> [])"
      using toFixed_abs_one_place[of change] by blast
    from ab(1,2) line place show ?thesis
      unfolding Let_def change_def by blast
  qed
  have c: "let change = num_mul (num_div (num_sub (Fin x) (Fin y)) (Fin y)) (Fin 100)
             in change \<noteq> NaN \<and>
                card_change c =
                  Shown \<lparr>tone = (if num_ge0 change then ''text-green-600''
                                  else ''text-red-600''),
                          arrow = (if num_ge0 change then Up else Down),
                          magnitude = toFixed h 1 (num_abs change)\<rparr>"
    if "v = Num (Fin x)" "p = Num (Fin y)" "y \<noteq> 0"
  proof -
    from that have "truthy p" by simp
    from b[OF this] that(1,2) have "card_change c =
        (if num_mul (num_div (num_sub (Fin x) (Fin y)) (Fin y)) (Fin 100) = NaN
         then Skipped (Bool False)
         else Shown \<lparr>tone = (if num_ge0 (num_mul (num_div (num_sub (Fin x) (Fin y)) (Fin y)) (Fin 100))
                             then ''text-green-600'' else ''text-red-600''),
                     arrow = (if num_ge0 (num_mul (num_div (num_sub (Fin x) (Fin y)) (Fin y)) (Fin 100))
                              then Up else Down),
                     magnitude = toFixed h 1
                       (num_abs (num_mul (num_div (num_sub (Fin x) (Fin y)) (Fin y)) (Fin 100)))\<rparr>)"
      by (auto simp add: toNumber_def Let_def)
    with finite_change_not_NaN[OF that(3), of x] show ?thesis
      by (simp add: Let_def)
  qed
  from a b c show ?thesis by blast
qed

text \<open>
  The doubles at work. With the value 103 and the previous value 80 the quotient
  \<open>23 / 80\<close> rounds below 0.2875, the change is just under 28.75 and the card shows
  \<^verbatim>\<open>28.7\<close>; with 120 and 100 it shows \<^verbatim>\<open>20.0\<close>.
\<close>

lemma change_103_80:
  "num_mul (num_div (num_sub (Fin 103) (Fin 80)) (Fin 80)) (Fin 100)
     = Fin (8092405580431359 / 281474976710656)"
proof -
  have s: "num_sub (Fin 103) (Fin 80) = Fin 23"
    by (simp add: num_sub_def num_add_def roundDouble_binade[where e = 4] nearest_def
        roundHalfEven_def Let_def)
  have d: "num_div (Fin 23) (Fin 80) = Fin (2589569785738035 / 9007199254740992)"
    by (simp add: num_div_def absValue_def roundDouble_binade[where e = "- 2"] nearest_def
        roundHalfEven_def Let_def)
  have m: "num_mul (Fin (2589569785738035 / 9007199254740992)) (Fin 100)
      = Fin (8092405580431359 / 281474976710656)"
    by (simp add: num_mul_def absValue_def roundDouble_binade[where e = 4] nearest_def
        roundHalfEven_def Let_def)
  show ?thesis by (simp only: s d m)
qed

lemma change_120_100:
  "num_mul (num_div (num_sub (Fin 120) (Fin 100)) (Fin 100)) (Fin 100) = Fin 20"
proof -
  have s: "num_sub (Fin 120) (Fin 100) = Fin 20"
    by (simp add: num_sub_def num_add_def roundDouble_binade[where e = 4] nearest_def
        roundHalfEven_def Let_def)
  have d: "num_div (Fin 20) (Fin 100) = Fin (3602879701896397 / 18014398509481984)"
    by (simp add: num_div_def absValue_def roundDouble_binade[where e = "- 3"] nearest_def
        roundHalfEven_def Let_def)
  have m: "num_mul (Fin (3602879701896397 / 18014398509481984)) (Fin 100) = Fin 20"
    by (simp add: num_mul_def absValue_def roundDouble_binade[where e = 4] nearest_def
        roundHalfEven_def Let_def)
  show ?thesis by (simp only: s d m)
qed

lemma hugeValue_pos: "0 < hugeValue"
  by (simp add: hugeValue_def)

lemma change_overflow:
  "num_mul (num_div (num_sub (Fin hugeValue) (Fin (- hugeValue))) (Fin (- hugeValue)))
     (Fin 100) = NInf"
proof -
  have r: "roundDouble False (2 * hugeValue) = PInf"
    by (simp add: hugeValue_def roundDouble_binade[where e = 1024] nearest_def
        roundHalfEven_def Let_def signedInf_def)
  have s: "num_sub (Fin hugeValue) (Fin (- hugeValue)) = PInf"
    using hugeValue_pos by (simp add: num_sub_def num_add_def r)
  have d: "num_div PInf (Fin (- hugeValue)) = NInf"
    using hugeValue_pos by (simp add: num_div_def signedInf_def)
  have m: "num_mul NInf (Fin 100) = NInf"
    by (simp add: num_mul_def signedInf_def)
  show ?thesis by (simp only: s d m)
qed

lemma line_103_80:
  "changeLine h (Some (Fin (8092405580431359 / 281474976710656)))
     = Shown \<lparr>tone = ''text-green-600'', arrow = Up, magnitude = ''28.7''\<rparr>"
  by (simp add: isNaN_def signedLine_def fixedDigits_def decimal.simps)

lemma line_120_100:
  "changeLine h (Some (Fin 20))
     = Shown \<lparr>tone = ''text-green-600'', arrow = Up, magnitude = ''20.0''\<rparr>"
  by (simp add: isNaN_def signedLine_def fixedDigits_def decimal.simps)

theorem metric_card_change_indicator_witness:
  "renderMetricCard plainHost ''Revenue'' (Num (Fin 103)) (Num (Fin 80)) Undefined None
     = Inr \<lparr>card_title = ''Revenue'', card_amount = ''<compact>'', card_date = Skipped Null,
            card_change = Shown \<lparr>tone = ''text-green-600'', arrow = Up, magnitude = ''28.7''\<rparr>\<rparr> \<and>
   renderMetricCard plainHost ''Revenue'' (Num (Fin 120)) (Num (Fin 100)) Undefined None
     = Inr \<lparr>card_title = ''Revenue'', card_amount = ''<compact>'', card_date = Skipped Null,
            card_change = Shown \<lparr>tone = ''text-green-600'', arrow = Up, magnitude = ''20.0''\<rparr>\<rparr> \<and>
   renderMetricCard plainHost ''Revenue'' (Num (Fin 120)) (Num (Fin 0)) Undefined None
     = Inr \<lparr>card_title = ''Revenue'', card_amount = ''<compact>'', card_date = Skipped Null,
            card_change = Skipped (Bool False)\<rparr> \<and>
   renderMetricCard plainHost ''Revenue'' (Num (Fin 120)) Undefined Undefined None
     = Inr \<lparr>card_title = ''Revenue'', card_amount = ''<compact>'', card_date = Skipped Null,
            card_change = Skipped (Bool False)\<rparr> \<and>
   num_mul (num_div (num_sub (Fin 103) (Fin 80)) (Fin 80)) (Fin 100)
     = Fin (8092405580431359 / 281474976710656)"
proof -
  have r1: "renderMetricCard plainHost ''Revenue'' (Num (Fin 103)) (Num (Fin 80)) Undefined None
     = Inr \<lparr>card_title = ''Revenue'', card_amount = ''<compact>'', card_date = Skipped Null,
            card_change = Shown \<lparr>tone = ''text-green-600'', arrow = Up, magnitude = ''28.7''\<rparr>\<rparr>"
    by (simp add: renderMetricCard_def percentChange_def toNumber_def formatCurrency_def
        change_103_80 line_103_80 plainHost_def del: changeLine.simps)
  have r2: "renderMetricCard plainHost ''Revenue'' (Num (Fin 120)) (Num (Fin 100)) Undefined None
     = Inr \<lparr>card_title = ''Revenue'', card_amount = ''<compact>'', card_date = Skipped Null,
            card_change = Shown \<lparr>tone = ''text-green-600'', arrow = Up, magnitude = ''20.0''\<rparr>\<rparr>"
    by (simp add: renderMetricCard_def percentChange_def toNumber_def formatCurrency_def
        change_120_100 line_120_100 plainHost_def del: changeLine.simps)
  have r3: "renderMetricCard plainHost ''Revenue'' (Num (Fin 120)) (Num (Fin 0)) Undefined None
     = Inr \<lparr>card_title = ''Revenue'', card_amount = ''<compact>'', card_date = Skipped Null,
            card_change = Skipped (Bool False)\<rparr>"
    by (simp add: renderMetricCard_def percentChange_def formatCurrency_def plainHost_def)
  have r4: "renderMetricCard plainHost ''Revenue'' (Num (Fin 120)) Undefined Undefined None
     = Inr \<lparr>card_title = ''Revenue'', card_amount = ''<compact>'', card_date = Skipped Null,
            card_change = Skipped (Bool False)\<rparr>"
    by (simp add: renderMetricCard_def percentChange_def formatCurrency_def plainHost_def)
  from metric_card_change_indicator[OF r1, of 103 80] metric_card_change_indicator[OF r2, of 120 100]
    metric_card_change_indicator[OF r3] metric_card_change_indicator[OF r4]
    r1 r2 r3 r4 change_103_80
  show ?thesis
    by simp
qed

text \<open>
  The claim as written fails for an infinite change. With the current value \<open>Infinity\<close>
  and the previous value 100 the change is \<open>Infinity\<close>, which \<^verbatim>\<open>!isNaN(change)\<close> lets
  through, and the card shows the up arrow and \<^verbatim>\<open>Infinity\<close>. With the finite values
  \<open>2^1023\<close> and \<open>- 2^1023\<close> (\<open>hugeValue\<close> and its negative) the difference overflows, the change is \<open>-Infinity\<close>, and the
  card shows the down arrow and \<^verbatim>\<open>Infinity\<close>.
\<close>

theorem metric_card_shows_infinite_change:
  "percentChange plainHost (Num PInf) (Num (Fin 100)) = Inr (Some PInf) \<and>
   map_sum id card_change
     (renderMetricCard plainHost ''Revenue'' (Num PInf) (Num (Fin 100)) Undefined None)
     = Inr (Shown \<lparr>tone = ''text-green-600'', arrow = Up, magnitude = ''Infinity''\<rparr>) \<and>
   percentChange plainHost (Num (Fin hugeValue)) (Num (Fin (- hugeValue))) = Inr (Some NInf) \<and>
   map_sum id card_change
     (renderMetricCard plainHost ''Revenue'' (Num (Fin hugeValue)) (Num (Fin (- hugeValue)))
        Undefined None)
     = Inr (Shown \<lparr>tone = ''text-red-600'', arrow = Down, magnitude = ''Infinity''\<rparr>)"
proof -
  have i: "num_mul (num_div (num_sub PInf (Fin 100)) (Fin 100)) (Fin 100) = PInf"
    by (simp add: num_sub_def num_add_def num_div_def num_mul_def signedInf_def)
  show ?thesis
    using hugeValue_pos
    by (simp add: renderMetricCard_def percentChange_def toNumber_def formatCurrency_def
        isNaN_def signedLine_def i change_overflow)
qed

section \<open>The chart adapter\<close>

lemma chartRow_record:
  assumes "getProp q ''metrics'' = Inr m" and "m \<noteq> Undefined" and "m \<noteq> Null"
  shows "chartRow q =
     Inr \<lparr>row_date = projr (getProp q ''date''),
          row_revenue = projr (getProp m ''Revenue''),
          row_netIncome = projr (getProp m ''NetIncome''),
          row_profitMargin = projr (getProp m ''ProfitMargin'')\<rparr>"
proof -
  from assms(1) have q: "q \<noteq> Undefined" "q \<noteq> Null" by auto
  then obtain d where d: "getProp q ''date'' = Inr d"
    by (cases q) auto
  from assms(2,3) obtain r where r: "getProp m ''Revenue'' = Inr r"
    by (cases m) auto
  from assms(2,3) obtain n where n: "getProp m ''NetIncome'' = Inr n"
    by (cases m) auto
  from assms(2,3) obtain p where p: "getProp m ''ProfitMargin'' = Inr p"
    by (cases m) auto
  show ?thesis
    by (simp add: chartRow_def assms(1) d r n p)
qed

text \<open>
  C8. For a sequence of quarterly records (each with a \<open>metrics\<close> mapping) the adapter
  returns one tuple per record, in the order of the input, each holding the record's date
  and its \<open>Revenue\<close>, \<open>NetIncome\<close> and \<open>ProfitMargin\<close> as they are: a metric that is
  \<open>null\<close> or missing (\<open>undefined\<close>) stays so.
\<close>

theorem chart_adapter_preserves_rows:
  assumes "\<forall>q \<in> set qs. \<exists>m. getProp q ''metrics'' = Inr m \<and> m \<noteq> Undefined \<and> m \<noteq> Null"
  shows "chartData (Arr qs) =
           Inr (map (\<lambda>q. \<lparr>row_date = projr (getProp q ''date''),
                          row_revenue = projr (getProp (projr (getProp q ''metrics'')) ''Revenue''),
                          row_netIncome = projr (getProp (projr (getProp q ''metrics'')) ''NetIncome''),
                          row_profitMargin =
                            projr (getProp (projr (getProp q ''metrics'')) ''ProfitMargin'')\<rparr>) qs)
       \<and> length (projr (chartData (Arr qs))) = length qs"
proof -
  have "mapM chartRow qs =
           Inr (map (\<lambda>q. \<lparr>row_date = projr (getProp q ''date''),
                          row_revenue = projr (getProp (projr (getProp q ''metrics'')) ''Revenue''),
                          row_netIncome = projr (getProp (projr (getProp q ''metrics'')) ''NetIncome''),
                          row_profitMargin =
                            projr (getProp (projr (getProp q ''metrics'')) ''ProfitMargin'')\<rparr>) qs)"
    using assms
  proof (induction qs)
    case Nil
    then show ?case by simp
  next
    case (Cons q qs)
    then obtain m where m: "getProp q ''metrics'' = Inr m" "m \<noteq> Undefined" "m \<noteq> Null"
      by auto
    from Cons have "mapM chartRow qs =
           Inr (map (\<lambda>q. \<lparr>row_date = projr (getProp q ''date''),
                          row_revenue = projr (getProp (projr (getProp q ''metrics'')) ''Revenue''),
                          row_netIncome = projr (getProp (projr (getProp q ''metrics'')) ''NetIncome''),
                          row_profitMargin =
                            projr (getProp (projr (getProp q ''metrics'')) ''ProfitMargin'')\<rparr>) qs)"
      by simp
    with chartRow_record[OF m] m(1) show ?case by simp
  qed
  then show ?thesis by simp
qed

theorem chart_adapter_preserves_rows_witness:
  "getProp (quarterOf ''2023-12-30'' 120 34) ''metrics'' =
     Inr (Obj [(''Revenue'', Num (Fin 120)), (''NetIncome'', Num (Fin 34)),
               (''ProfitMargin'', Null), (''Assets'', Num (Fin 350))]) \<and>
   chartData (Arr [quarterOf ''2023-12-30'' 120 34, quarterOf ''2023-09-30'' 100 23]) =
     Inr [\<lparr>row_date = Str ''2023-12-30'', row_revenue = Num (Fin 120),
           row_netIncome = Num (Fin 34), row_profitMargin = Null\<rparr>,
          \<lparr>row_date = Str ''2023-09-30'', row_revenue = Num (Fin 100),
           row_netIncome = Num (Fin 23), row_profitMargin = Null\<rparr>]"
proof -
  have r: "\<forall>q \<in> set [quarterOf ''2023-12-30'' 120 34, quarterOf ''2023-09-30'' 100 23].
       \<exists>m. getProp q ''metrics'' = Inr m \<and> m \<noteq> Undefined \<and> m \<noteq> Null"
    by (simp add: quarterOf_def)
  from chart_adapter_preserves_rows[OF r] r show ?thesis
    by (simp add: quarterOf_def)
qed

section \<open>A failed analysis request\<close>

text \<open>
  C9, as the code has it. When the \<^verbatim>\<open>try\<close> block of an analysis request throws (a
  rejected \<^verbatim>\<open>fetch\<close>, a non-2xx response, a body that does not parse or is \<open>null\<close>),
  the dataset, the ticker text and the search loading flag are as before. What has changed
  is the error slot (the message), the analysis text (cleared), the analysis loading flag
  (cleared) and the selected kind, which line 68 sets to the requested kind before the
  request is issued.
\<close>

theorem failed_analysis_frame:
  assumes "truthy (data st)" and "analysisTry h ty (net (analysisRequest ty st)) = Inl e"
  shows "fst (handleAnalysisClick h net ty st) =
           st\<lparr>error := message h e, analysisType := Str ty, analysisContent := Str [],
              loadingAnalysis := False\<rparr>
       \<and> data (fst (handleAnalysisClick h net ty st)) = data st
       \<and> ticker (fst (handleAnalysisClick h net ty st)) = ticker st
       \<and> loading (fst (handleAnalysisClick h net ty st)) = loading st"
  using assms
  by (simp add: handleAnalysisClick_run analysisSettle_fail analysisBegin_def)

theorem failed_analysis_frame_witness:
  "truthy (data loadedState) \<and>
   analysisTry plainHost ''risk'' (NetworkError ''offline'') = Inl (HostError ''offline'') \<and>
   data (fst (handleAnalysisClick plainHost (\<lambda>r. NetworkError ''offline'') ''risk'' loadedState))
     = snapshotTwo \<and>
   error (fst (handleAnalysisClick plainHost (\<lambda>r. NetworkError ''offline'') ''risk'' loadedState))
     = ''offline''"
proof -
  have t: "analysisTry plainHost ''risk''
      ((\<lambda>r. NetworkError ''offline'') (analysisRequest ''risk'' loadedState))
      = Inl (HostError ''offline'')"
    by simp
  have d: "data loadedState = snapshotTwo"
    by (simp add: loadedState_def)
  show ?thesis
    using loadedState_data d failed_analysis_frame[OF loadedState_data t]
    by simp
qed

text \<open>
  The claim as written leaves the selected kind out of what may change: a failed
  \<open>risk\<close> request on a view with no kind selected leaves \<open>risk\<close> selected.
\<close>

theorem failed_analysis_changes_selected_kind:
  "analysisType loadedState = Null \<and>
   analysisType (fst (handleAnalysisClick plainHost
       (\<lambda>r. Response False (Json (Obj [(''error'', Str ''boom'')]))) ''risk'' loadedState))
     = Str ''risk''"
  by (simp add: handleAnalysisClick_def analysisStart_def analysisSettle_def analysisBegin_def
     loadedState_def initialState_def snapshotTwo_def split: sum.split)

section \<open>The error slot and the selected kind across the two handlers\<close>

text \<open>
  C10. The analysis handler does not clear the error slot: not when the request is issued
  and not when it succeeds, so the message of a failed request is still there after a
  later request has succeeded. The search handler clears it when it issues its request,
  and never touches the selected analysis kind.
\<close>

theorem analysis_keeps_error_search_keeps_kind:
  "error (fst (analysisStart ty st)) = error st
   \<and> (analysisTry h ty (net (analysisRequest ty st)) = Inr v \<longrightarrow>
        error (fst (handleAnalysisClick h net ty st)) = error st)
   \<and> (truthy (data st) \<and>
      analysisTry h ty (net (analysisRequest ty st)) = Inl e \<and>
      analysisTry h ty'
        (net' (analysisRequest ty' (fst (handleAnalysisClick h net ty st)))) = Inr v \<longrightarrow>
        error (fst (handleAnalysisClick h net' ty' (fst (handleAnalysisClick h net ty st))))
          = message h e)
   \<and> (ticker st \<noteq> [] \<longrightarrow> error (fst (searchStart h st)) = [])
   \<and> analysisType (fst (handleSearch h net'' st)) = analysisType st"
proof -
  have a: "error (fst (analysisStart ty st)) = error st" for ty st
    by (simp add: analysisStart_def analysisBegin_def)
  have b: "error (fst (handleAnalysisClick h net ty st)) = error st"
    if "analysisTry h ty (net (analysisRequest ty st)) = Inr v" for ty st net v
    using that
    by (cases "truthy (data st)")
      (simp_all add: handleAnalysisClick_def analysisStart_def analysisSettle_success
        analysisBegin_def)
  have c: "error (fst (handleAnalysisClick h net' ty' (fst (handleAnalysisClick h net ty st))))
          = message h e"
    if "truthy (data st)" and "analysisTry h ty (net (analysisRequest ty st)) = Inl e"
      and "analysisTry h ty'
        (net' (analysisRequest ty' (fst (handleAnalysisClick h net ty st)))) = Inr v"
  proof -
    have "error (fst (handleAnalysisClick h net ty st)) = message h e"
      using that(1,2)
      by (simp add: handleAnalysisClick_run analysisSettle_fail analysisBegin_def)
    moreover have "error (fst (handleAnalysisClick h net' ty' (fst (handleAnalysisClick h net ty st))))
        = error (fst (handleAnalysisClick h net ty st))"
      by (rule b) (rule that(3))
    ultimately show ?thesis by simp
  qed
  have d: "ticker st \<noteq> [] \<Longrightarrow> error (fst (searchStart h st)) = []"
    by (simp add: searchStart_def searchBegin_def)
  have e: "analysisType (fst (handleSearch h net'' st)) = analysisType st"
    by (simp add: handleSearch_def searchStart_def searchSettle_def searchBegin_def
        split: sum.split)
  from a b c d e show ?thesis by blast
qed


theorem analysis_keeps_error_search_keeps_kind_witness:
  "analysisTry plainHost ''risk''
     (Response False (Json (Obj [(''error'', Str ''boom'')]))) = Inl (Error ''boom'') \<and>
   analysisTry plainHost ''analyze''
     (Response True (Json (Obj [(''analysis'', Str ''fine'')]))) = Inr (Str ''fine'') \<and>
   error (fst (handleAnalysisClick plainHost
       (\<lambda>r. Response True (Json (Obj [(''analysis'', Str ''fine'')]))) ''analyze''
       (fst (handleAnalysisClick plainHost
          (\<lambda>r. Response False (Json (Obj [(''error'', Str ''boom'')]))) ''risk'' loadedState))))
     = ''boom'' \<and>
   error (fst (searchStart plainHost (typedState\<lparr>error := ''boom''\<rparr>))) = [] \<and>
   analysisType (fst (handleSearch plainHost (\<lambda>r. NetworkError ''offline'')
       (typedState\<lparr>analysisType := Str ''risk''\<rparr>))) = Str ''risk''"
proof -
  have f: "analysisTry plainHost ''risk''
     (Response False (Json (Obj [(''error'', Str ''boom'')]))) = Inl (Error ''boom'')"
    by (simp add: throwErrorOf_def toString_js_def)
  have s: "analysisTry plainHost ''analyze''
     (Response True (Json (Obj [(''analysis'', Str ''fine'')]))) = Inr (Str ''fine'')"
    by (simp add: analysisField_def)
  have t: "ticker (typedState\<lparr>error := ''boom''\<rparr>) \<noteq> []"
    by (simp add: typedState_def initialState_def)
  show ?thesis
    using f s t loadedState_data
      analysis_keeps_error_search_keeps_kind[of "''risk''" loadedState plainHost
        "\<lambda>r. Response False (Json (Obj [(''error'', Str ''boom'')]))" "Str ''fine''"
        "Error ''boom''" "''analyze''"
        "\<lambda>r. Response True (Json (Obj [(''analysis'', Str ''fine'')]))"
        "\<lambda>r. NetworkError ''offline''"]
      analysis_keeps_error_search_keeps_kind[of "''risk''" "typedState\<lparr>error := ''boom''\<rparr>" plainHost
        "\<lambda>r. Response False (Json (Obj [(''error'', Str ''boom'')]))" "Str ''fine''"
        "Error ''boom''" "''analyze''"
        "\<lambda>r. Response True (Json (Obj [(''analysis'', Str ''fine'')]))"
        "\<lambda>r. NetworkError ''offline''"]
      analysis_keeps_error_search_keeps_kind[of "''risk''" "typedState\<lparr>analysisType := Str ''risk''\<rparr>" plainHost
        "\<lambda>r. Response False (Json (Obj [(''error'', Str ''boom'')]))" "Str ''fine''"
        "Error ''boom''" "''analyze''"
        "\<lambda>r. Response True (Json (Obj [(''analysis'', Str ''fine'')]))"
        "\<lambda>r. NetworkError ''offline''"]
    by simp
qed

end
